theory Spec2Isabelle
  imports Complex_Main
begin

section \<open>The jetson-stats Prometheus collector\<close>

text \<open>
  A shallow embedding of \<^verbatim>\<open>CustomCollector.collect\<close> of
  \<^verbatim>\<open>jetson_stats_prometheus_collector.py\<close>. The method is a Python generator: on
  every scrape it reads attributes of the jtop session, builds one metric family after
  the other and yields each family as soon as it is complete. A failing subscript
  (\<^verbatim>\<open>d[k]\<close> on a missing key, \<^verbatim>\<open>xs[i]\<close> past the end) raises and ends the generator
  at that point.
\<close>

subsection \<open>Python values, errors and subscripts\<close>

text \<open>
  The two exceptions a subscript can raise. The specification calls both of them
  \<^verbatim>\<open>FieldMissingError\<close>; Python calls them \<^verbatim>\<open>KeyError\<close> (with the missing key) and
  \<^verbatim>\<open>IndexError\<close>.
\<close>

datatype error = KeyError string | IndexError

text \<open>
  A gauge value is a Python number. The collector never computes with a sensor reading,
  it only copies it, so a float reading is represented by the rational it denotes. The
  literal \<^verbatim>\<open>0\<close> and the uptime components are Python ints.
\<close>

datatype pynum = PyInt int | PyFloat rat

type_synonym 'v dict = "string \<rightharpoonup> 'v"

text \<open>
  \<^verbatim>\<open>d[k]\<close> and \<^verbatim>\<open>xs[i]\<close>. The subscripted expression is itself the result of earlier
  subscripts, so both take a result and pass an earlier exception on. The indices of the
  source are the literals 0 to 7, hence a \<open>nat\<close>.
\<close>

definition getitem :: "error + 'v dict \<Rightarrow> string \<Rightarrow> error + 'v" where
  "getitem r k =
     (case r of
        Inl e \<Rightarrow> Inl e
      | Inr d \<Rightarrow> (case d k of None \<Rightarrow> Inl (KeyError k) | Some v \<Rightarrow> Inr v))"

definition getindex :: "error + 'a list \<Rightarrow> nat \<Rightarrow> error + 'a" where
  "getindex r i =
     (case r of
        Inl e \<Rightarrow> Inl e
      | Inr xs \<Rightarrow> (if i < length xs then Inr (xs ! i) else Inl IndexError))"

subsection \<open>The jtop session\<close>

text \<open>
  The attributes of the jtop object that \<^verbatim>\<open>collect\<close> reads, with the nesting the
  subscripts of the source give them. \<open>power_attr\<close> is the attribute \<^verbatim>\<open>power\<close> and
  \<open>nvp_name\<close> the attribute \<^verbatim>\<open>name\<close> of \<^verbatim>\<open>nvpmodel\<close>. \<open>ok\<close> is the answer of
  \<^verbatim>\<open>ok()\<close>. A \<^verbatim>\<open>timedelta\<close> is read through its \<^verbatim>\<open>days\<close> and \<^verbatim>\<open>seconds\<close>.
\<close>

record timedelta =
  days :: int
  seconds :: int

record nvpmodel_t =
  nvp_name :: string

record jtop =
  ok :: bool
  board :: "string dict dict"
  nvpmodel :: nvpmodel_t
  uptime :: timedelta
  cpu :: "pynum dict dict list dict"
  gpu :: "pynum dict dict dict"
  memory :: "pynum dict dict"
  disk :: "pynum dict"
  fan :: "pynum dict dict"
  temperature :: "pynum dict"
  power_attr :: "pynum dict dict dict"

subsection \<open>Metric families\<close>

text \<open>
  The family objects of \<^verbatim>\<open>prometheus_client\<close> as the collector uses them: a constructor
  taking name, documentation and label names, and \<^verbatim>\<open>add_metric\<close>, which appends one
  record (label values and a value) to the family. The value of an info record is a
  dictionary of strings, kept in the order the literal lists it; the value of a gauge
  record is a number.
\<close>

datatype metric_value = InfoValue "(string \<times> string) list" | GaugeValue pynum

record family =
  name :: string
  documentation :: string
  mtype :: string
  labelnames :: "string list"
  samples :: "(string list \<times> metric_value) list"

definition InfoMetricFamily :: "string \<Rightarrow> string \<Rightarrow> string list \<Rightarrow> family" where
  "InfoMetricFamily n d ls =
     \<lparr>name = n, documentation = d, mtype = ''info'', labelnames = ls, samples = []\<rparr>"

definition GaugeMetricFamily :: "string \<Rightarrow> string \<Rightarrow> string list \<Rightarrow> family" where
  "GaugeMetricFamily n d ls =
     \<lparr>name = n, documentation = d, mtype = ''gauge'', labelnames = ls, samples = []\<rparr>"

definition add_metric :: "family \<Rightarrow> string list \<Rightarrow> metric_value \<Rightarrow> family" where
  "add_metric g ls v = g\<lparr>samples := samples g @ [(ls, v)]\<rparr>"

text \<open>
  A run of \<^verbatim>\<open>g.add_metric(labels, expr)\<close> statements: each evaluates its expression and
  appends the record; the first expression that raises ends the run, and the family
  under construction is lost with it.
\<close>

fun add_metrics :: "family \<Rightarrow> (string list \<times> (error + pynum)) list \<Rightarrow> error + family" where
  "add_metrics g [] = Inr g"
| "add_metrics g ((ls, Inl e) # rest) = Inl e"
| "add_metrics g ((ls, Inr v) # rest) = add_metrics (add_metric g ls (GaugeValue v)) rest"

text \<open>
  A dictionary literal \<^verbatim>\<open>{k1: e1, k2: e2, ...}\<close>: the values are evaluated left to
  right and the first one that raises ends the evaluation.
\<close>

fun dict_literal :: "(string \<times> (error + 'v)) list \<Rightarrow> error + (string \<times> 'v) list" where
  "dict_literal [] = Inr []"
| "dict_literal ((k, Inl e) # rest) = Inl e"
| "dict_literal ((k, Inr v) # rest) =
     (case dict_literal rest of Inl e \<Rightarrow> Inl e | Inr d \<Rightarrow> Inr ((k, v) # d))"

subsection \<open>The thirteen blocks of \<^verbatim>\<open>collect\<close>\<close>

text \<open>
  Each block of the source builds one family and ends in \<^verbatim>\<open>yield\<close>. A block is a
  function from the session to the family it yields, or to the exception it raises
  before reaching its \<^verbatim>\<open>yield\<close>.
\<close>

definition board_items :: "'a jtop_scheme \<Rightarrow> (string \<times> (error + string)) list" where
  "board_items j =
     [(''machine'', getitem (getitem (Inr (board j)) ''platform'') ''Machine''),
      (''distribution'', getitem (getitem (Inr (board j)) ''platform'') ''Distribution''),
      (''release'', getitem (getitem (Inr (board j)) ''platform'') ''Release''),
      (''jetpack'', getitem (getitem (Inr (board j)) ''hardware'') ''Jetpack''),
      (''l4t'', getitem (getitem (Inr (board j)) ''hardware'') ''L4T''),
      (''module'', getitem (getitem (Inr (board j)) ''hardware'') ''Module''),
      (''type'', getitem (getitem (Inr (board j)) ''hardware'') ''Model''),
      (''codename'', getitem (getitem (Inr (board j)) ''hardware'') ''Codename''),
      (''soc'', getitem (getitem (Inr (board j)) ''hardware'') ''SoC''),
      (''cuda_arch_bin'', getitem (getitem (Inr (board j)) ''hardware'') ''CUDA Arch BIN''),
      (''serial_number'', getitem (getitem (Inr (board j)) ''hardware'') ''Serial Number'')]"

definition board_info :: "'a jtop_scheme \<Rightarrow> error + family" where
  "board_info j =
     (let i = InfoMetricFamily ''jetson_info_board'' ''Board sys info'' [''board_info'']
      in case dict_literal (board_items j) of
           Inl e \<Rightarrow> Inl e
         | Inr d \<Rightarrow> Inr (add_metric i [''info''] (InfoValue d)))"

definition nv_power_mode :: "'a jtop_scheme \<Rightarrow> error + family" where
  "nv_power_mode j =
     (let i = InfoMetricFamily ''jetson_nvpmode'' ''NV power mode'' [''nvpmode'']
      in case dict_literal [(''mode'', Inr (nvp_name (nvpmodel j)))] of
           Inl e \<Rightarrow> Inl e
         | Inr d \<Rightarrow> Inr (add_metric i [''mode''] (InfoValue d)))"

definition system_uptime :: "'a jtop_scheme \<Rightarrow> error + family" where
  "system_uptime j =
     (let g = GaugeMetricFamily ''jetson_uptime'' ''System uptime'' [''uptime''];
          days = days (uptime j);
          seconds = seconds (uptime j);
          hours = seconds div 3600;
          minutes = (seconds div 60) mod 60
      in add_metrics g
           [([''days''], Inr (PyInt days)),
            ([''hours''], Inr (PyInt hours)),
            ([''minutes''], Inr (PyInt minutes))])"

text \<open>\<^verbatim>\<open>self._jetson.cpu['cpu'][i]['freq']['cur']\<close>\<close>

definition cpu_freq_cur :: "'a jtop_scheme \<Rightarrow> nat \<Rightarrow> error + pynum" where
  "cpu_freq_cur j i = getitem (getitem (getindex (getitem (Inr (cpu j)) ''cpu'') i) ''freq'') ''cur''"

definition cpu_usage :: "'a jtop_scheme \<Rightarrow> error + family" where
  "cpu_usage j =
     (let g = GaugeMetricFamily ''jetson_usage_cpu'' ''CPU % schedutil'' [''cpu'']
      in add_metrics g
           [([''cpu_1''], cpu_freq_cur j 0),
            ([''cpu_2''], cpu_freq_cur j 1),
            ([''cpu_3''], cpu_freq_cur j 2),
            ([''cpu_4''], cpu_freq_cur j 3),
            ([''cpu_5''], cpu_freq_cur j 4),
            ([''cpu_6''], cpu_freq_cur j 5),
            ([''cpu_7''], cpu_freq_cur j 6),
            ([''cpu_8''], cpu_freq_cur j 7)])"

definition gpu_usage :: "'a jtop_scheme \<Rightarrow> error + family" where
  "gpu_usage j =
     (let g = GaugeMetricFamily ''jetson_usage_gpu'' ''GPU % schedutil'' [''gpu'']
      in add_metrics g
           [([''val''], getitem (getitem (getitem (Inr (gpu j)) ''gv11b'') ''status'') ''load'')])"

definition ram_usage :: "'a jtop_scheme \<Rightarrow> error + family" where
  "ram_usage j =
     (let g = GaugeMetricFamily ''jetson_usage_ram'' ''Memory usage'' [''ram'']
      in add_metrics g
           [([''used''], getitem (getitem (Inr (memory j)) ''RAM'') ''used''),
            ([''shared''], getitem (getitem (Inr (memory j)) ''RAM'') ''shared''),
            ([''total''], getitem (getitem (Inr (memory j)) ''RAM'') ''tot'')])"

definition disk_usage :: "'a jtop_scheme \<Rightarrow> error + family" where
  "disk_usage j =
     (let g = GaugeMetricFamily ''jetson_usage_disk'' ''Disk space usage'' [''disk'']
      in add_metrics g
           [([''used''], getitem (Inr (disk j)) ''used''),
            ([''total''], getitem (Inr (disk j)) ''total''),
            ([''available''], getitem (Inr (disk j)) ''available''),
            ([''available_no_root''], getitem (Inr (disk j)) ''available_no_root'')])"

definition fan_usage :: "'a jtop_scheme \<Rightarrow> error + family" where
  "fan_usage j =
     (let g = GaugeMetricFamily ''jetson_usage_fan'' ''Fan usage'' [''fan'']
      in add_metrics g
           [([''speed''], getitem (getitem (Inr (fan j)) ''tegra_pwmfan'') ''speed''),
            ([''rpm''], getitem (getitem (Inr (fan j)) ''tegra_pwmfan'') ''rpm'')])"

definition swap_usage :: "'a jtop_scheme \<Rightarrow> error + family" where
  "swap_usage j =
     (let g = GaugeMetricFamily ''jetson_usage_swap'' ''Swapfile usage'' [''swap'']
      in add_metrics g
           [([''used''], getitem (getitem (Inr (memory j)) ''SWAP'') ''used''),
            ([''total''], getitem (getitem (Inr (memory j)) ''SWAP'') ''tot'')])"

text \<open>\<^verbatim>\<open>self._jetson.temperature[k] if k in self._jetson.temperature else 0\<close>\<close>

definition temperature_or_0 :: "'a jtop_scheme \<Rightarrow> string \<Rightarrow> error + pynum" where
  "temperature_or_0 j k =
     (if k \<in> dom (temperature j) then getitem (Inr (temperature j)) k else Inr (PyInt 0))"

definition sensor_temperatures :: "'a jtop_scheme \<Rightarrow> error + family" where
  "sensor_temperatures j =
     (let g = GaugeMetricFamily ''jetson_temperatures'' ''Sensor temperatures'' [''temperature'']
      in add_metrics g
           [([''ao''], temperature_or_0 j ''AO''),
            ([''gpu''], temperature_or_0 j ''GPU''),
            ([''tdiode''], temperature_or_0 j ''Tdiode''),
            ([''aux''], temperature_or_0 j ''AUX''),
            ([''cpu''], temperature_or_0 j ''CPU''),
            ([''thermal''], temperature_or_0 j ''thermal''),
            ([''tboard''], temperature_or_0 j ''Tboard'')])"

text \<open>\<^verbatim>\<open>self._jetson.power['rail'][r][q]\<close>\<close>

definition rail :: "'a jtop_scheme \<Rightarrow> string \<Rightarrow> string \<Rightarrow> error + pynum" where
  "rail j r q = getitem (getitem (getitem (Inr (power_attr j)) ''rail'') r) q"

definition power_usage :: "'a jtop_scheme \<Rightarrow> error + family" where
  "power_usage j =
     (let g = GaugeMetricFamily ''jetson_usage_power'' ''Power usage'' [''power'']
      in add_metrics g
           [([''cpu''], rail j ''CPU'' ''power''),
            ([''cv''], rail j ''CV'' ''power''),
            ([''gpu''], rail j ''GPU'' ''power''),
            ([''soc''], rail j ''SOC'' ''power''),
            ([''sys5v''], rail j ''SYS5V'' ''power''),
            ([''vddrq''], rail j ''VDDRQ'' ''power'')])"

definition voltage_levels :: "'a jtop_scheme \<Rightarrow> error + family" where
  "voltage_levels j =
     (let g = GaugeMetricFamily ''jetson_usage_voltage_levels'' ''Voltage'' [''voltage'']
      in add_metrics g
           [([''cpu''], rail j ''CPU'' ''volt''),
            ([''cv''], rail j ''CV'' ''volt''),
            ([''gpu''], rail j ''GPU'' ''volt''),
            ([''soc''], rail j ''SOC'' ''volt''),
            ([''sys5v''], rail j ''SYS5V'' ''volt''),
            ([''vddrq''], rail j ''VDDRQ'' ''volt'')])"

definition current_values :: "'a jtop_scheme \<Rightarrow> error + family" where
  "current_values j =
     (let g = GaugeMetricFamily ''jetson_usage_current_values'' ''Current'' [''current'']
      in add_metrics g
           [([''cpu''], rail j ''CPU'' ''curr''),
            ([''cv''], rail j ''CV'' ''curr''),
            ([''gpu''], rail j ''GPU'' ''curr''),
            ([''soc''], rail j ''SOC'' ''curr''),
            ([''sys5v''], rail j ''SYS5V'' ''curr''),
            ([''vddrq''], rail j ''VDDRQ'' ''curr'')])"

subsection \<open>The generator\<close>

text \<open>
  What the consumer of the generator observes, in order: the families it is handed, and
  at the end possibly an exception. A generator that returns normally ends the trace
  without a \<open>Raise\<close>.
\<close>

datatype event = Yield family | Raise error

definition blocks :: "('a jtop_scheme \<Rightarrow> error + family) list" where
  "blocks =
     [board_info, nv_power_mode, system_uptime, cpu_usage, gpu_usage, ram_usage,
      disk_usage, fan_usage, swap_usage, sensor_temperatures, power_usage,
      voltage_levels, current_values]"

text \<open>
  Running the blocks in their order: a block that completes yields its family before the
  next block starts; a block that raises ends the generator with nothing yielded for it.
\<close>

fun run_blocks :: "('a jtop_scheme \<Rightarrow> error + family) list \<Rightarrow> 'a jtop_scheme \<Rightarrow> event list" where
  "run_blocks [] j = []"
| "run_blocks (b # bs) j =
     (case b j of Inl e \<Rightarrow> [Raise e] | Inr g \<Rightarrow> Yield g # run_blocks bs j)"

definition collect :: "'a jtop_scheme \<Rightarrow> event list" where
  "collect j = (if ok j then run_blocks blocks j else [])"

subsection \<open>The pass with its objects in a store\<close>

text \<open>
  A family is a Python object. The constructor call allocates a new object, the variable
  \<^verbatim>\<open>i\<close> or \<^verbatim>\<open>g\<close> holds a reference to it, and \<^verbatim>\<open>add_metric\<close> changes the object
  the reference points to. The store holds every family object allocated so far, those
  of earlier passes too; a reference is an index into it, and a new object goes to the
  end. \<^verbatim>\<open>collect\<close> assigns to no attribute of the collector and to none of the
  session, so the store is all the state a pass leaves behind.
\<close>

type_synonym store = "family list"

type_synonym ref = nat

definition alloc :: "family \<Rightarrow> store \<Rightarrow> ref \<times> store" where
  "alloc f s = (length s, s @ [f])"

definition add_metric_at :: "ref \<Rightarrow> string list \<Rightarrow> metric_value \<Rightarrow> store \<Rightarrow> store" where
  "add_metric_at r ls v s = s[r := add_metric (s ! r) ls v]"

text \<open>
  A run of \<^verbatim>\<open>g.add_metric(labels, expr)\<close> statements on the object behind \<open>r\<close>. An
  expression that raises ends the run and leaves the object as far as it was built.
\<close>

fun add_metrics_at ::
  "ref \<Rightarrow> (string list \<times> (error + pynum)) list \<Rightarrow> store \<Rightarrow> error option \<times> store" where
  "add_metrics_at r [] s = (None, s)"
| "add_metrics_at r ((ls, Inl e) # rest) s = (Some e, s)"
| "add_metrics_at r ((ls, Inr v) # rest) s =
     add_metrics_at r rest (add_metric_at r ls (GaugeValue v) s)"

text \<open>
  A gauge block: \<^verbatim>\<open>g = GaugeMetricFamily(n, d, labels=ls)\<close>, the \<^verbatim>\<open>add_metric\<close>
  statements, \<^verbatim>\<open>yield g\<close>. The consumer is handed the object as it is at the yield.
\<close>

definition gauge_block_at ::
  "string \<Rightarrow> string \<Rightarrow> string list \<Rightarrow> (string list \<times> (error + pynum)) list \<Rightarrow> store \<Rightarrow>
     (error + family) \<times> store" where
  "gauge_block_at n d ls items s =
     (let (g, s1) = alloc (GaugeMetricFamily n d ls) s;
          (r, s2) = add_metrics_at g items s1
      in case r of Some e \<Rightarrow> (Inl e, s2) | None \<Rightarrow> (Inr (s2 ! g), s2))"

text \<open>
  An info block: \<^verbatim>\<open>i = InfoMetricFamily(n, d, labels=ls)\<close>, one \<^verbatim>\<open>add_metric\<close> whose
  value is a dictionary literal, \<^verbatim>\<open>yield i\<close>.
\<close>

definition info_block_at ::
  "string \<Rightarrow> string \<Rightarrow> string list \<Rightarrow> string list \<Rightarrow> (string \<times> (error + string)) list \<Rightarrow>
     store \<Rightarrow> (error + family) \<times> store" where
  "info_block_at n d ls lv items s =
     (let (i, s1) = alloc (InfoMetricFamily n d ls) s
      in case dict_literal items of
           Inl e \<Rightarrow> (Inl e, s1)
         | Inr dict \<Rightarrow> (let s2 = add_metric_at i lv (InfoValue dict) s1 in (Inr (s2 ! i), s2)))"

text \<open>The thirteen blocks of the source once more, now as statements on the store.\<close>

definition board_info_at :: "'a jtop_scheme \<Rightarrow> store \<Rightarrow> (error + family) \<times> store" where
  "board_info_at j =
     info_block_at ''jetson_info_board'' ''Board sys info'' [''board_info''] [''info'']
       (board_items j)"

definition nv_power_mode_at :: "'a jtop_scheme \<Rightarrow> store \<Rightarrow> (error + family) \<times> store" where
  "nv_power_mode_at j =
     info_block_at ''jetson_nvpmode'' ''NV power mode'' [''nvpmode''] [''mode'']
       [(''mode'', Inr (nvp_name (nvpmodel j)))]"

definition system_uptime_at :: "'a jtop_scheme \<Rightarrow> store \<Rightarrow> (error + family) \<times> store" where
  "system_uptime_at j =
     (let days = days (uptime j);
          seconds = seconds (uptime j);
          hours = seconds div 3600;
          minutes = (seconds div 60) mod 60
      in gauge_block_at ''jetson_uptime'' ''System uptime'' [''uptime'']
           [([''days''], Inr (PyInt days)),
            ([''hours''], Inr (PyInt hours)),
            ([''minutes''], Inr (PyInt minutes))])"

definition cpu_usage_at :: "'a jtop_scheme \<Rightarrow> store \<Rightarrow> (error + family) \<times> store" where
  "cpu_usage_at j =
     gauge_block_at ''jetson_usage_cpu'' ''CPU % schedutil'' [''cpu'']
       [([''cpu_1''], cpu_freq_cur j 0),
        ([''cpu_2''], cpu_freq_cur j 1),
        ([''cpu_3''], cpu_freq_cur j 2),
        ([''cpu_4''], cpu_freq_cur j 3),
        ([''cpu_5''], cpu_freq_cur j 4),
        ([''cpu_6''], cpu_freq_cur j 5),
        ([''cpu_7''], cpu_freq_cur j 6),
        ([''cpu_8''], cpu_freq_cur j 7)]"

definition gpu_usage_at :: "'a jtop_scheme \<Rightarrow> store \<Rightarrow> (error + family) \<times> store" where
  "gpu_usage_at j =
     gauge_block_at ''jetson_usage_gpu'' ''GPU % schedutil'' [''gpu'']
       [([''val''], getitem (getitem (getitem (Inr (gpu j)) ''gv11b'') ''status'') ''load'')]"

definition ram_usage_at :: "'a jtop_scheme \<Rightarrow> store \<Rightarrow> (error + family) \<times> store" where
  "ram_usage_at j =
     gauge_block_at ''jetson_usage_ram'' ''Memory usage'' [''ram'']
       [([''used''], getitem (getitem (Inr (memory j)) ''RAM'') ''used''),
        ([''shared''], getitem (getitem (Inr (memory j)) ''RAM'') ''shared''),
        ([''total''], getitem (getitem (Inr (memory j)) ''RAM'') ''tot'')]"

definition disk_usage_at :: "'a jtop_scheme \<Rightarrow> store \<Rightarrow> (error + family) \<times> store" where
  "disk_usage_at j =
     gauge_block_at ''jetson_usage_disk'' ''Disk space usage'' [''disk'']
       [([''used''], getitem (Inr (disk j)) ''used''),
        ([''total''], getitem (Inr (disk j)) ''total''),
        ([''available''], getitem (Inr (disk j)) ''available''),
        ([''available_no_root''], getitem (Inr (disk j)) ''available_no_root'')]"

definition fan_usage_at :: "'a jtop_scheme \<Rightarrow> store \<Rightarrow> (error + family) \<times> store" where
  "fan_usage_at j =
     gauge_block_at ''jetson_usage_fan'' ''Fan usage'' [''fan'']
       [([''speed''], getitem (getitem (Inr (fan j)) ''tegra_pwmfan'') ''speed''),
        ([''rpm''], getitem (getitem (Inr (fan j)) ''tegra_pwmfan'') ''rpm'')]"

definition swap_usage_at :: "'a jtop_scheme \<Rightarrow> store \<Rightarrow> (error + family) \<times> store" where
  "swap_usage_at j =
     gauge_block_at ''jetson_usage_swap'' ''Swapfile usage'' [''swap'']
       [([''used''], getitem (getitem (Inr (memory j)) ''SWAP'') ''used''),
        ([''total''], getitem (getitem (Inr (memory j)) ''SWAP'') ''tot'')]"

definition sensor_temperatures_at ::
  "'a jtop_scheme \<Rightarrow> store \<Rightarrow> (error + family) \<times> store" where
  "sensor_temperatures_at j =
     gauge_block_at ''jetson_temperatures'' ''Sensor temperatures'' [''temperature'']
       [([''ao''], temperature_or_0 j ''AO''),
        ([''gpu''], temperature_or_0 j ''GPU''),
        ([''tdiode''], temperature_or_0 j ''Tdiode''),
        ([''aux''], temperature_or_0 j ''AUX''),
        ([''cpu''], temperature_or_0 j ''CPU''),
        ([''thermal''], temperature_or_0 j ''thermal''),
        ([''tboard''], temperature_or_0 j ''Tboard'')]"

definition power_usage_at :: "'a jtop_scheme \<Rightarrow> store \<Rightarrow> (error + family) \<times> store" where
  "power_usage_at j =
     gauge_block_at ''jetson_usage_power'' ''Power usage'' [''power'']
       [([''cpu''], rail j ''CPU'' ''power''),
        ([''cv''], rail j ''CV'' ''power''),
        ([''gpu''], rail j ''GPU'' ''power''),
        ([''soc''], rail j ''SOC'' ''power''),
        ([''sys5v''], rail j ''SYS5V'' ''power''),
        ([''vddrq''], rail j ''VDDRQ'' ''power'')]"

definition voltage_levels_at :: "'a jtop_scheme \<Rightarrow> store \<Rightarrow> (error + family) \<times> store" where
  "voltage_levels_at j =
     gauge_block_at ''jetson_usage_voltage_levels'' ''Voltage'' [''voltage'']
       [([''cpu''], rail j ''CPU'' ''volt''),
        ([''cv''], rail j ''CV'' ''volt''),
        ([''gpu''], rail j ''GPU'' ''volt''),
        ([''soc''], rail j ''SOC'' ''volt''),
        ([''sys5v''], rail j ''SYS5V'' ''volt''),
        ([''vddrq''], rail j ''VDDRQ'' ''volt'')]"

definition current_values_at :: "'a jtop_scheme \<Rightarrow> store \<Rightarrow> (error + family) \<times> store" where
  "current_values_at j =
     gauge_block_at ''jetson_usage_current_values'' ''Current'' [''current'']
       [([''cpu''], rail j ''CPU'' ''curr''),
        ([''cv''], rail j ''CV'' ''curr''),
        ([''gpu''], rail j ''GPU'' ''curr''),
        ([''soc''], rail j ''SOC'' ''curr''),
        ([''sys5v''], rail j ''SYS5V'' ''curr''),
        ([''vddrq''], rail j ''VDDRQ'' ''curr'')]"

definition blocks_at :: "('a jtop_scheme \<Rightarrow> store \<Rightarrow> (error + family) \<times> store) list" where
  "blocks_at =
     [board_info_at, nv_power_mode_at, system_uptime_at, cpu_usage_at, gpu_usage_at,
      ram_usage_at, disk_usage_at, fan_usage_at, swap_usage_at, sensor_temperatures_at,
      power_usage_at, voltage_levels_at, current_values_at]"

text \<open>
  Running the blocks on the store: each block starts in the store the block before it
  left, and the pass returns its trace and the store it leaves.
\<close>

fun run_blocks_at ::
  "('a jtop_scheme \<Rightarrow> store \<Rightarrow> (error + family) \<times> store) list \<Rightarrow> 'a jtop_scheme \<Rightarrow> store \<Rightarrow>
     event list \<times> store" where
  "run_blocks_at [] j s = ([], s)"
| "run_blocks_at (b # bs) j s =
     (case b j s of
        (Inl e, s1) \<Rightarrow> ([Raise e], s1)
      | (Inr g, s1) \<Rightarrow> (let (es, s2) = run_blocks_at bs j s1 in (Yield g # es, s2)))"

definition collect_at :: "'a jtop_scheme \<Rightarrow> store \<Rightarrow> event list \<times> store" where
  "collect_at j s = (if ok j then run_blocks_at blocks_at j s else ([], s))"

text \<open>Two passes over the same session, the second in the store the first has left.\<close>

definition collect_twice :: "'a jtop_scheme \<Rightarrow> store \<Rightarrow> event list \<times> event list" where
  "collect_twice j s =
     (let (first, s1) = collect_at j s; (second, s2) = collect_at j s1 in (first, second))"

text \<open>
  A block on the store gives what the block gives as a function of the session, whatever
  the store it starts in, and leaves that store with one object more.
\<close>

definition refines ::
  "'a jtop_scheme \<Rightarrow> ('a jtop_scheme \<Rightarrow> store \<Rightarrow> (error + family) \<times> store) \<Rightarrow>
     ('a jtop_scheme \<Rightarrow> error + family) \<Rightarrow> bool" where
  "refines j ba b = (\<forall>s. \<exists>g'. ba j s = (b j, s @ [g']))"

text \<open>The families of a trace, and whether it ends in an exception.\<close>

fun families :: "event list \<Rightarrow> family list" where
  "families [] = []"
| "families (Yield g # es) = g # families es"
| "families (Raise e # es) = families es"

fun raised :: "event list \<Rightarrow> error option" where
  "raised [] = None"
| "raised (Yield g # es) = raised es"
| "raised (Raise e # es) = Some e"

text \<open>
  The name and the label key each block passes to the constructor of its family, in the
  order of the blocks.
\<close>

definition family_names :: "string list" where
  "family_names =
     [''jetson_info_board'', ''jetson_nvpmode'', ''jetson_uptime'', ''jetson_usage_cpu'',
      ''jetson_usage_gpu'', ''jetson_usage_ram'', ''jetson_usage_disk'', ''jetson_usage_fan'',
      ''jetson_usage_swap'', ''jetson_temperatures'', ''jetson_usage_power'',
      ''jetson_usage_voltage_levels'', ''jetson_usage_current_values'']"

definition label_keys :: "string list" where
  "label_keys =
     [''board_info'', ''nvpmode'', ''uptime'', ''cpu'', ''gpu'', ''ram'', ''disk'', ''fan'',
      ''swap'', ''temperature'', ''power'', ''voltage'', ''current'']"

text \<open>A block that completes yields a family with the block's own name and label key.\<close>

definition named :: "'a jtop_scheme \<Rightarrow> ('a jtop_scheme \<Rightarrow> error + family) \<Rightarrow> string \<times> string \<Rightarrow> bool" where
  "named j b nl = (\<forall>g. b j = Inr g \<longrightarrow> name g = fst nl \<and> labelnames g = [snd nl])"

text \<open>The families of a trace that carry a given name.\<close>

definition family_named :: "event list \<Rightarrow> string \<Rightarrow> family list" where
  "family_named es n = filter (\<lambda>g. name g = n) (families es)"

subsection \<open>Which fields a session has\<close>

text \<open>
  The fields the blocks subscript, as predicates on the session. They are what the
  statements below mean by a field being present.
\<close>

definition present2 :: "'v dict dict \<Rightarrow> string \<Rightarrow> string \<Rightarrow> bool" where
  "present2 d a b = (case d a of None \<Rightarrow> False | Some d' \<Rightarrow> b \<in> dom d')"

definition present3 :: "'v dict dict dict \<Rightarrow> string \<Rightarrow> string \<Rightarrow> string \<Rightarrow> bool" where
  "present3 d a b c = (case d a of None \<Rightarrow> False | Some d' \<Rightarrow> present2 d' b c)"

definition board_present :: "'a jtop_scheme \<Rightarrow> bool" where
  "board_present j =
     ((\<forall>k \<in> set [''Machine'', ''Distribution'', ''Release'']. present2 (board j) ''platform'' k) \<and>
      (\<forall>k \<in> set [''Jetpack'', ''L4T'', ''Module'', ''Model'', ''Codename'', ''SoC'',
                  ''CUDA Arch BIN'', ''Serial Number'']. present2 (board j) ''hardware'' k))"

text \<open>The current frequency of an entry of the per-core list, if the entry has one.\<close>

definition core_cur :: "pynum dict dict \<Rightarrow> pynum option" where
  "core_cur c = (case c ''freq'' of None \<Rightarrow> None | Some f \<Rightarrow> f ''cur'')"

text \<open>The per-core list is there and each of its first \<open>n\<close> entries has a current frequency.\<close>

definition cores_present :: "'a jtop_scheme \<Rightarrow> nat \<Rightarrow> bool" where
  "cores_present j n =
     (case cpu j ''cpu'' of
        None \<Rightarrow> False
      | Some cores \<Rightarrow> n \<le> length cores \<and> (\<forall>i < n. core_cur (cores ! i) \<noteq> None))"

definition gpu_present :: "'a jtop_scheme \<Rightarrow> bool" where
  "gpu_present j = present3 (gpu j) ''gv11b'' ''status'' ''load''"

definition ram_present :: "'a jtop_scheme \<Rightarrow> bool" where
  "ram_present j = (\<forall>k \<in> set [''used'', ''shared'', ''tot'']. present2 (memory j) ''RAM'' k)"

definition disk_present :: "'a jtop_scheme \<Rightarrow> bool" where
  "disk_present j =
     (\<forall>k \<in> set [''used'', ''total'', ''available'', ''available_no_root'']. k \<in> dom (disk j))"

definition fan_present :: "'a jtop_scheme \<Rightarrow> bool" where
  "fan_present j = (\<forall>k \<in> set [''speed'', ''rpm'']. present2 (fan j) ''tegra_pwmfan'' k)"

definition swap_present :: "'a jtop_scheme \<Rightarrow> bool" where
  "swap_present j = (\<forall>k \<in> set [''used'', ''tot'']. present2 (memory j) ''SWAP'' k)"

text \<open>Each rail in \<open>rs\<close> is there and has the quantity \<open>q\<close>.\<close>

definition rails_present :: "'a jtop_scheme \<Rightarrow> string list \<Rightarrow> string \<Rightarrow> bool" where
  "rails_present j rs q = (\<forall>r \<in> set rs. present3 (power_attr j) ''rail'' r q)"

definition six_rails :: "string list" where
  "six_rails = [''CPU'', ''CV'', ''GPU'', ''SOC'', ''SYS5V'', ''VDDRQ'']"

text \<open>Everything the blocks before the power block subscript without a default.\<close>

definition fields_before_power :: "'a jtop_scheme \<Rightarrow> bool" where
  "fields_before_power j =
     (board_present j \<and> cores_present j 8 \<and> gpu_present j \<and> ram_present j \<and>
      disk_present j \<and> fan_present j \<and> swap_present j)"

definition all_fields_present :: "'a jtop_scheme \<Rightarrow> bool" where
  "all_fields_present j =
     (fields_before_power j \<and> rails_present j six_rails ''power'' \<and>
      rails_present j six_rails ''volt'' \<and> rails_present j six_rails ''curr'')"

subsection \<open>A sample session\<close>

text \<open>
  A reading of an AGX Xavier with every field there, two temperature sensors, eight
  cores and an uptime of 2 days and 10000 seconds.
\<close>

definition core :: "int \<Rightarrow> pynum dict dict" where
  "core f = [''freq'' \<mapsto> [''cur'' \<mapsto> PyInt f]]"

definition rail_reading :: "int \<Rightarrow> int \<Rightarrow> int \<Rightarrow> pynum dict" where
  "rail_reading p v c = [''power'' \<mapsto> PyInt p, ''volt'' \<mapsto> PyInt v, ''curr'' \<mapsto> PyInt c]"

definition xavier_board :: "string dict dict" where
  "xavier_board =
     [''platform'' \<mapsto>
        [''Machine'' \<mapsto> ''aarch64'', ''Distribution'' \<mapsto> ''Ubuntu 20.04'',
         ''Release'' \<mapsto> ''5.10.104-tegra''],
      ''hardware'' \<mapsto>
        [''Jetpack'' \<mapsto> ''5.1.1'', ''L4T'' \<mapsto> ''35.3.1'', ''Module'' \<mapsto> ''AGX Xavier'',
         ''Model'' \<mapsto> ''Jetson AGX Xavier'', ''Codename'' \<mapsto> ''galen'',
         ''SoC'' \<mapsto> ''tegra194'', ''CUDA Arch BIN'' \<mapsto> ''7.2'',
         ''Serial Number'' \<mapsto> ''0423018012345'']]"

definition xavier_rails :: "pynum dict dict" where
  "xavier_rails =
     [''CPU'' \<mapsto> rail_reading 1200 19000 63, ''CV'' \<mapsto> rail_reading 0 19000 0,
      ''GPU'' \<mapsto> rail_reading 310 19000 16, ''SOC'' \<mapsto> rail_reading 1100 19000 58,
      ''SYS5V'' \<mapsto> rail_reading 2400 5000 480, ''VDDRQ'' \<mapsto> rail_reading 450 5000 90]"

definition xavier :: jtop where
  "xavier =
     \<lparr>ok = True,
      board = xavier_board,
      nvpmodel = \<lparr>nvp_name = ''MODE_30W_ALL''\<rparr>,
      uptime = \<lparr>days = 2, seconds = 10000\<rparr>,
      cpu = [''cpu'' \<mapsto> map core [100, 200, 300, 400, 500, 600, 700, 800]],
      gpu = [''gv11b'' \<mapsto> [''status'' \<mapsto> [''load'' \<mapsto> PyFloat (25 / 2)]]],
      memory =
        [''RAM'' \<mapsto> [''used'' \<mapsto> PyInt 4100000, ''shared'' \<mapsto> PyInt 52000,
                     ''tot'' \<mapsto> PyInt 32000000],
         ''SWAP'' \<mapsto> [''used'' \<mapsto> PyInt 0, ''tot'' \<mapsto> PyInt 16000000]],
      disk =
        [''used'' \<mapsto> PyFloat (43 / 2), ''total'' \<mapsto> PyFloat 28, ''available'' \<mapsto> PyFloat (13 / 2),
         ''available_no_root'' \<mapsto> PyFloat 5],
      fan = [''tegra_pwmfan'' \<mapsto> [''speed'' \<mapsto> PyInt 40, ''rpm'' \<mapsto> PyInt 1500]],
      temperature = [''CPU'' \<mapsto> PyFloat 45, ''GPU'' \<mapsto> PyFloat (382 / 10)],
      power_attr = [''rail'' \<mapsto> xavier_rails]\<rparr>"

text \<open>
  The same reading with the rail \<^verbatim>\<open>VDDRQ\<close> missing, with six cores, with a ninth
  core, with a hardware table that only has the Jetpack version, and from a board whose
  GPU is not called \<^verbatim>\<open>gv11b\<close> (with eight and with nine cores).
\<close>

definition xavier_no_vddrq :: jtop where
  "xavier_no_vddrq = xavier\<lparr>power_attr := [''rail'' \<mapsto> xavier_rails(''VDDRQ'' := None)]\<rparr>"

definition xavier_six_cores :: jtop where
  "xavier_six_cores = xavier\<lparr>cpu := [''cpu'' \<mapsto> map core [100, 200, 300, 400, 500, 600]]\<rparr>"

definition xavier_nine_cores :: jtop where
  "xavier_nine_cores =
     xavier\<lparr>cpu := [''cpu'' \<mapsto> map core [100, 200, 300, 400, 500, 600, 700, 800, 900]]\<rparr>"

definition xavier_partial_board :: jtop where
  "xavier_partial_board =
     xavier\<lparr>board := xavier_board(''hardware'' \<mapsto> [''Jetpack'' \<mapsto> ''5.1.1''])\<rparr>"

definition orin_nine_cores :: jtop where
  "orin_nine_cores =
     xavier_nine_cores\<lparr>gpu := [''ga10b'' \<mapsto> [''status'' \<mapsto> [''load'' \<mapsto> PyFloat (25 / 2)]]]\<rparr>"

definition orin :: jtop where
  "orin = xavier\<lparr>gpu := [''ga10b'' \<mapsto> [''status'' \<mapsto> [''load'' \<mapsto> PyFloat (25 / 2)]]]\<rparr>"

section \<open>Properties\<close>

subsection \<open>Subscripts\<close>

lemma getitem_Inr [simp]:
  "getitem (Inr d) k = (case d k of None \<Rightarrow> Inl (KeyError k) | Some v \<Rightarrow> Inr v)"
  by (simp add: getitem_def)

lemma getitem_Inl [simp]: "getitem (Inl e) k = Inl e"
  by (simp add: getitem_def)

lemma getindex_Inr [simp]:
  "getindex (Inr xs) i = (if i < length xs then Inr (xs ! i) else Inl IndexError)"
  by (simp add: getindex_def)

lemma getindex_Inl [simp]: "getindex (Inl e) i = Inl e"
  by (simp add: getindex_def)

lemma isl_getitem2: "isl (getitem (getitem (Inr d) a) b) \<longleftrightarrow> \<not> present2 d a b"
  by (auto simp: present2_def split: option.splits)

lemma isl_getitem3: "isl (getitem (getitem (getitem (Inr d) a) b) c) \<longleftrightarrow> \<not> present3 d a b c"
  by (auto simp: present3_def present2_def split: option.splits)

lemma isl_getitem1: "isl (getitem (Inr d) a) \<longleftrightarrow> a \<notin> dom d"
  by (auto split: option.splits)

subsection \<open>Runs of \<^verbatim>\<open>add_metric\<close> and dictionary literals\<close>

lemma add_metrics_isl: "isl (add_metrics g xs) \<longleftrightarrow> (\<exists>x \<in> set xs. isl (snd x))"
  by (induction g xs rule: add_metrics.induct) auto

lemma add_metrics_Inr:
  "add_metrics g xs = Inr g' \<Longrightarrow>
     g' = g\<lparr>samples := samples g @ map (\<lambda>x. (fst x, GaugeValue (projr (snd x)))) xs\<rparr>"
  by (induction g xs arbitrary: g' rule: add_metrics.induct) (auto simp: add_metric_def)

lemma add_metrics_ok:
  "\<forall>x \<in> set xs. \<not> isl (snd x) \<Longrightarrow>
     add_metrics g xs = Inr (g\<lparr>samples := samples g @ map (\<lambda>x. (fst x, GaugeValue (projr (snd x)))) xs\<rparr>)"
  using add_metrics_isl [of g xs] add_metrics_Inr [of g xs]
  by (cases "add_metrics g xs") auto

lemma dict_literal_isl: "isl (dict_literal xs) \<longleftrightarrow> (\<exists>x \<in> set xs. isl (snd x))"
  by (induction xs rule: dict_literal.induct) (auto split: sum.splits)

lemma dict_literal_Inr:
  "dict_literal xs = Inr d \<Longrightarrow> d = map (\<lambda>x. (fst x, projr (snd x))) xs"
  by (induction xs arbitrary: d rule: dict_literal.induct) (auto split: sum.splits)

subsection \<open>Traces of the generator\<close>

lemma run_blocks_ok:
  "\<forall>b \<in> set bs. \<not> isl (b j) \<Longrightarrow> run_blocks bs j = map (\<lambda>b. Yield (projr (b j))) bs"
  by (induction bs) (auto split: sum.splits)

lemma run_blocks_fail:
  "\<forall>b \<in> set bs. \<not> isl (b j) \<Longrightarrow> b' j = Inl e \<Longrightarrow>
     run_blocks (bs @ b' # rest) j = map (\<lambda>b. Yield (projr (b j))) bs @ [Raise e]"
  by (induction bs) (auto split: sum.splits)

lemma run_blocks_families:
  "g \<in> set (families (run_blocks bs j)) \<Longrightarrow> \<exists>b \<in> set bs. b j = Inr g"
  by (induction bs) (auto split: sum.splits)

lemma raised_run_blocks:
  "raised (run_blocks bs j) = None \<longleftrightarrow> (\<forall>b \<in> set bs. \<not> isl (b j))"
  by (induction bs) (auto split: sum.splits)

lemma families_map_Yield [simp]: "families (map Yield fs) = fs"
  by (induction fs) auto

lemma families_append_Raise [simp]: "families (map Yield fs @ [Raise e]) = fs"
  by (induction fs) auto

lemma raised_map_Yield [simp]: "raised (map Yield fs) = None"
  by (induction fs) auto

lemma raised_append_Raise [simp]: "raised (map Yield fs @ [Raise e]) = Some e"
  by (induction fs) auto

subsection \<open>Names and label keys of the blocks\<close>

lemma add_metrics_name:
  "add_metrics g xs = Inr g' \<Longrightarrow> name g' = name g \<and> labelnames g' = labelnames g"
  by (drule add_metrics_Inr) simp

lemma board_info_name:
  "board_info j = Inr g \<Longrightarrow> name g = ''jetson_info_board'' \<and> labelnames g = [''board_info'']"
  by (auto simp: board_info_def Let_def InfoMetricFamily_def add_metric_def split: sum.splits)

lemma nv_power_mode_name:
  "nv_power_mode j = Inr g \<Longrightarrow> name g = ''jetson_nvpmode'' \<and> labelnames g = [''nvpmode'']"
  by (auto simp: nv_power_mode_def Let_def InfoMetricFamily_def add_metric_def split: sum.splits)

lemma system_uptime_name:
  "system_uptime j = Inr g \<Longrightarrow> name g = ''jetson_uptime'' \<and> labelnames g = [''uptime'']"
  unfolding system_uptime_def Let_def by (drule add_metrics_name) (simp add: GaugeMetricFamily_def)

lemma cpu_usage_name:
  "cpu_usage j = Inr g \<Longrightarrow> name g = ''jetson_usage_cpu'' \<and> labelnames g = [''cpu'']"
  unfolding cpu_usage_def Let_def by (drule add_metrics_name) (simp add: GaugeMetricFamily_def)

lemma gpu_usage_name:
  "gpu_usage j = Inr g \<Longrightarrow> name g = ''jetson_usage_gpu'' \<and> labelnames g = [''gpu'']"
  unfolding gpu_usage_def Let_def by (drule add_metrics_name) (simp add: GaugeMetricFamily_def)

lemma ram_usage_name:
  "ram_usage j = Inr g \<Longrightarrow> name g = ''jetson_usage_ram'' \<and> labelnames g = [''ram'']"
  unfolding ram_usage_def Let_def by (drule add_metrics_name) (simp add: GaugeMetricFamily_def)

lemma disk_usage_name:
  "disk_usage j = Inr g \<Longrightarrow> name g = ''jetson_usage_disk'' \<and> labelnames g = [''disk'']"
  unfolding disk_usage_def Let_def by (drule add_metrics_name) (simp add: GaugeMetricFamily_def)

lemma fan_usage_name:
  "fan_usage j = Inr g \<Longrightarrow> name g = ''jetson_usage_fan'' \<and> labelnames g = [''fan'']"
  unfolding fan_usage_def Let_def by (drule add_metrics_name) (simp add: GaugeMetricFamily_def)

lemma swap_usage_name:
  "swap_usage j = Inr g \<Longrightarrow> name g = ''jetson_usage_swap'' \<and> labelnames g = [''swap'']"
  unfolding swap_usage_def Let_def by (drule add_metrics_name) (simp add: GaugeMetricFamily_def)

lemma sensor_temperatures_name:
  "sensor_temperatures j = Inr g \<Longrightarrow>
     name g = ''jetson_temperatures'' \<and> labelnames g = [''temperature'']"
  unfolding sensor_temperatures_def Let_def
  by (drule add_metrics_name) (simp add: GaugeMetricFamily_def)

lemma power_usage_name:
  "power_usage j = Inr g \<Longrightarrow> name g = ''jetson_usage_power'' \<and> labelnames g = [''power'']"
  unfolding power_usage_def Let_def by (drule add_metrics_name) (simp add: GaugeMetricFamily_def)

lemma voltage_levels_name:
  "voltage_levels j = Inr g \<Longrightarrow>
     name g = ''jetson_usage_voltage_levels'' \<and> labelnames g = [''voltage'']"
  unfolding voltage_levels_def Let_def by (drule add_metrics_name) (simp add: GaugeMetricFamily_def)

lemma current_values_name:
  "current_values j = Inr g \<Longrightarrow>
     name g = ''jetson_usage_current_values'' \<and> labelnames g = [''current'']"
  unfolding current_values_def Let_def by (drule add_metrics_name) (simp add: GaugeMetricFamily_def)

lemmas block_name =
  board_info_name nv_power_mode_name system_uptime_name cpu_usage_name gpu_usage_name
  ram_usage_name disk_usage_name fan_usage_name swap_usage_name sensor_temperatures_name
  power_usage_name voltage_levels_name current_values_name

lemma blocks_named: "list_all2 (named j) blocks (zip family_names label_keys)"
  by (simp add: blocks_def family_names_def label_keys_def named_def block_name)

lemma run_blocks_named:
  "list_all2 (named j) bs nls \<Longrightarrow>
     \<exists>k \<le> length nls. map (\<lambda>g. (name g, labelnames g)) (families (run_blocks bs j)) =
        map (\<lambda>nl. (fst nl, [snd nl])) (take k nls)"
proof (induction bs nls rule: list_all2_induct)
  case Nil
  then show ?case by simp
next
  case (Cons b bs nl nls)
  show ?case
  proof (cases "b j")
    case (Inl e)
    then have "map (\<lambda>g. (name g, labelnames g)) (families (run_blocks (b # bs) j)) =
        map (\<lambda>nl. (fst nl, [snd nl])) (take 0 (nl # nls))"
      by simp
    then show ?thesis by blast
  next
    case (Inr g)
    from Cons.IH obtain k where k: "k \<le> length nls"
      "map (\<lambda>g. (name g, labelnames g)) (families (run_blocks bs j)) =
        map (\<lambda>nl. (fst nl, [snd nl])) (take k nls)"
      by blast
    from Inr Cons.hyps(1) have "name g = fst nl" "labelnames g = [snd nl]"
      by (simp_all add: named_def)
    with Inr k have "Suc k \<le> length (nl # nls)"
      "map (\<lambda>g. (name g, labelnames g)) (families (run_blocks (b # bs) j)) =
        map (\<lambda>nl. (fst nl, [snd nl])) (take (Suc k) (nl # nls))"
      by simp_all
    then show ?thesis by blast
  qed
qed

lemma collect_names_prefix:
  "\<exists>k \<le> 13. map name (families (collect j)) = take k family_names"
proof (cases "ok j")
  case False
  then have "map name (families (collect j)) = take 0 family_names"
    by (simp add: collect_def)
  then show ?thesis by blast
next
  case True
  from run_blocks_named [OF blocks_named, of j]
  obtain k where k: "k \<le> length (zip family_names label_keys)"
    "map (\<lambda>g. (name g, labelnames g)) (families (run_blocks blocks j)) =
        map (\<lambda>nl. (fst nl, [snd nl])) (take k (zip family_names label_keys))"
    by blast
  from k(2) have "map fst (map (\<lambda>g. (name g, labelnames g)) (families (run_blocks blocks j))) =
        map fst (map (\<lambda>nl. (fst nl, [snd nl])) (take k (zip family_names label_keys)))"
    by simp
  then have "map name (families (run_blocks blocks j)) = take k family_names"
    by (simp add: o_def take_map [symmetric] family_names_def label_keys_def)
  moreover from k(1) have "k \<le> 13"
    by (simp add: family_names_def label_keys_def)
  ultimately show ?thesis using True by (auto simp: collect_def)
qed

lemma distinct_family_names: "distinct family_names"
  by (simp add: family_names_def)

lemma collect_names_distinct: "distinct (map name (families (collect j)))"
proof -
  from collect_names_prefix [of j] obtain k where
    "map name (families (collect j)) = take k family_names" by blast
  then show ?thesis by (simp add: distinct_family_names)
qed

lemma filter_distinct_key:
  "distinct (map f xs) \<Longrightarrow> x \<in> set xs \<Longrightarrow> filter (\<lambda>y. f y = f x) xs = [x]"
proof (induction xs)
  case Nil
  then show ?case by simp
next
  case (Cons a xs)
  show ?case
  proof (cases "a = x")
    case True
    from Cons.prems(1) have "f a \<notin> f ` set xs" by simp
    then have "\<forall>y \<in> set xs. f y \<noteq> f a" by (metis imageI)
    with True have "\<forall>y \<in> set xs. f y \<noteq> f x" by simp
    then have "filter (\<lambda>y. f y = f x) xs = []" by (simp add: filter_empty_conv)
    with True show ?thesis by simp
  next
    case False
    with Cons.prems have "x \<in> set xs" "f a \<noteq> f x" by auto
    with Cons show ?thesis by simp
  qed
qed

lemma family_named_unique:
  "g \<in> set (families (collect j)) \<Longrightarrow> family_named (collect j) (name g) = [g]"
  unfolding family_named_def
  by (rule filter_distinct_key [OF collect_names_distinct])

subsection \<open>When a block raises\<close>

lemma isl_board_info: "isl (board_info j) \<longleftrightarrow> \<not> board_present j"
proof -
  have "isl (board_info j) \<longleftrightarrow> isl (dict_literal (board_items j))"
    by (simp add: board_info_def Let_def split: sum.splits)
  also have "\<dots> \<longleftrightarrow> \<not> board_present j"
    unfolding dict_literal_isl
    by (simp add: board_items_def board_present_def isl_getitem2 del: getitem_Inr)
  finally show ?thesis .
qed

lemma not_isl_nv_power_mode: "\<not> isl (nv_power_mode j)"
  by (simp add: nv_power_mode_def Let_def)

lemma not_isl_system_uptime: "\<not> isl (system_uptime j)"
  by (simp add: system_uptime_def Let_def)

lemma isl_cpu_freq_cur:
  "isl (cpu_freq_cur j i) \<longleftrightarrow>
     (case cpu j ''cpu'' of None \<Rightarrow> True
      | Some cores \<Rightarrow> \<not> (i < length cores \<and> core_cur (cores ! i) \<noteq> None))"
  by (auto simp: cpu_freq_cur_def core_cur_def split: option.splits)

lemma all_less_8:
  "(\<forall>i<8. P (i::nat)) \<longleftrightarrow> P 0 \<and> P 1 \<and> P 2 \<and> P 3 \<and> P 4 \<and> P 5 \<and> P 6 \<and> P 7"
proof -
  have "{..<8::nat} = {0, 1, 2, 3, 4, 5, 6, 7}" by auto
  then have "(\<forall>i \<in> {..<8::nat}. P i) \<longleftrightarrow> (\<forall>i \<in> {0, 1, 2, 3, 4, 5, 6, 7}. P i)" by simp
  moreover have "(\<forall>i<8. P i) \<longleftrightarrow> (\<forall>i \<in> {..<8::nat}. P i)" by auto
  ultimately show ?thesis by simp
qed

lemma isl_cpu_usage: "isl (cpu_usage j) \<longleftrightarrow> \<not> cores_present j 8"
proof (cases "cpu j ''cpu''")
  case None
  then show ?thesis
    by (simp add: cpu_usage_def Let_def add_metrics_isl isl_cpu_freq_cur cores_present_def)
next
  case (Some cores)
  then show ?thesis
    by (auto simp: cpu_usage_def Let_def add_metrics_isl isl_cpu_freq_cur cores_present_def
          all_less_8)
qed

lemma isl_gpu_usage: "isl (gpu_usage j) \<longleftrightarrow> \<not> gpu_present j"
  by (simp add: gpu_usage_def Let_def add_metrics_isl isl_getitem3 gpu_present_def
        del: getitem_Inr)

lemma isl_ram_usage: "isl (ram_usage j) \<longleftrightarrow> \<not> ram_present j"
  by (simp add: ram_usage_def Let_def add_metrics_isl isl_getitem2 ram_present_def
        del: getitem_Inr)

lemma isl_disk_usage: "isl (disk_usage j) \<longleftrightarrow> \<not> disk_present j"
  by (simp add: disk_usage_def Let_def add_metrics_isl isl_getitem1 disk_present_def
        del: getitem_Inr)

lemma isl_fan_usage: "isl (fan_usage j) \<longleftrightarrow> \<not> fan_present j"
  by (simp add: fan_usage_def Let_def add_metrics_isl isl_getitem2 fan_present_def
        del: getitem_Inr)

lemma isl_swap_usage: "isl (swap_usage j) \<longleftrightarrow> \<not> swap_present j"
  by (simp add: swap_usage_def Let_def add_metrics_isl isl_getitem2 swap_present_def
        del: getitem_Inr)

lemma temperature_or_0_eq:
  "temperature_or_0 j k = Inr (case temperature j k of None \<Rightarrow> PyInt 0 | Some v \<Rightarrow> v)"
  by (auto simp: temperature_or_0_def split: option.splits)

lemma not_isl_sensor_temperatures: "\<not> isl (sensor_temperatures j)"
  by (simp add: sensor_temperatures_def Let_def add_metrics_isl temperature_or_0_eq)

lemma isl_rail: "isl (rail j r q) \<longleftrightarrow> \<not> present3 (power_attr j) ''rail'' r q"
  unfolding rail_def by (rule isl_getitem3)

lemma isl_power_usage: "isl (power_usage j) \<longleftrightarrow> \<not> rails_present j six_rails ''power''"
  by (simp add: power_usage_def Let_def add_metrics_isl isl_rail rails_present_def six_rails_def)

lemma isl_voltage_levels: "isl (voltage_levels j) \<longleftrightarrow> \<not> rails_present j six_rails ''volt''"
  by (simp add: voltage_levels_def Let_def add_metrics_isl isl_rail rails_present_def
        six_rails_def)

lemma isl_current_values: "isl (current_values j) \<longleftrightarrow> \<not> rails_present j six_rails ''curr''"
  by (simp add: current_values_def Let_def add_metrics_isl isl_rail rails_present_def
        six_rails_def)

lemmas block_isl =
  isl_board_info not_isl_nv_power_mode not_isl_system_uptime isl_cpu_usage isl_gpu_usage
  isl_ram_usage isl_disk_usage isl_fan_usage isl_swap_usage not_isl_sensor_temperatures
  isl_power_usage isl_voltage_levels isl_current_values

subsection \<open>The trace of \<^verbatim>\<open>collect\<close>\<close>

lemma not_isl_Inr: "\<not> isl x \<Longrightarrow> x = Inr (projr x)"
  by (cases x) simp_all

lemma families_append_Yield [simp]: "families (map Yield fs @ es) = fs @ families es"
  by (induction fs) auto

lemma raised_append_Yield [simp]: "raised (map Yield fs @ es) = raised es"
  by (induction fs) auto

lemma families_append_Yield_map [simp]:
  "families (map (\<lambda>x. Yield (f x)) xs @ es) = map f xs @ families es"
  by (induction xs) auto

lemma raised_append_Yield_map [simp]:
  "raised (map (\<lambda>x. Yield (f x)) xs @ es) = raised es"
  by (induction xs) auto

lemma families_Yield_map [simp]: "families (map (\<lambda>x. Yield (f x)) xs) = map f xs"
  by (induction xs) auto

lemma raised_Yield_map [simp]: "raised (map (\<lambda>x. Yield (f x)) xs) = None"
  by (induction xs) auto

lemma run_blocks_append:
  "\<forall>b \<in> set bs. \<not> isl (b j) \<Longrightarrow>
     run_blocks (bs @ cs) j = map (\<lambda>b. Yield (projr (b j))) bs @ run_blocks cs j"
  by (induction bs) (auto split: sum.splits)

lemma run_blocks_families_before:
  "isl (b j) \<Longrightarrow> g \<in> set (families (run_blocks (bs @ b # rest) j)) \<Longrightarrow>
     \<exists>b' \<in> set bs. b' j = Inr g"
  by (induction bs) (auto split: sum.splits)

lemma collect_families:
  "g \<in> set (families (collect j)) \<Longrightarrow> \<exists>b \<in> set blocks. b j = Inr g"
  by (cases "ok j") (auto simp: collect_def dest: run_blocks_families)

lemma collect_all_ok:
  "ok j \<Longrightarrow> all_fields_present j \<Longrightarrow> collect j = map (\<lambda>b. Yield (projr (b j))) blocks"
proof -
  assume a: "ok j" "all_fields_present j"
  then have "\<forall>b \<in> set blocks. \<not> isl (b j)"
    by (simp add: blocks_def block_isl all_fields_present_def fields_before_power_def)
  then have "run_blocks blocks j = map (\<lambda>b. Yield (projr (b j))) blocks"
    by (rule run_blocks_ok)
  with a(1) show ?thesis by (simp add: collect_def)
qed

lemma collect_fail_at:
  "ok j \<Longrightarrow> blocks = bs @ b # rest \<Longrightarrow> \<forall>b' \<in> set bs. \<not> isl (b' j) \<Longrightarrow> b j = Inl e \<Longrightarrow>
     collect j = map (\<lambda>b. Yield (projr (b j))) bs @ [Raise e]"
  using run_blocks_fail [of bs j b e rest] by (simp add: collect_def)

lemma collect_yields:
  "ok j \<Longrightarrow> blocks = bs @ b # rest \<Longrightarrow> \<forall>b' \<in> set bs. \<not> isl (b' j) \<Longrightarrow> \<not> isl (b j) \<Longrightarrow>
     projr (b j) \<in> set (families (collect j))"
  using run_blocks_append [of bs j "b # rest"]
  by (cases "b j") (simp_all add: collect_def)

text \<open>The first ten blocks and the three power blocks.\<close>

lemma blocks_split_power:
  "blocks =
     [board_info, nv_power_mode, system_uptime, cpu_usage, gpu_usage, ram_usage,
      disk_usage, fan_usage, swap_usage, sensor_temperatures] @
     power_usage # [voltage_levels, current_values]"
  by (simp add: blocks_def)

lemma before_power_ok:
  "fields_before_power j \<Longrightarrow>
     \<forall>b \<in> set [board_info, nv_power_mode, system_uptime, cpu_usage, gpu_usage, ram_usage,
       disk_usage, fan_usage, swap_usage, sensor_temperatures]. \<not> isl (b j)"
  by (simp add: block_isl fields_before_power_def)

lemma take_10_blocks:
  "take 10 blocks =
     [board_info, nv_power_mode, system_uptime, cpu_usage, gpu_usage, ram_usage,
      disk_usage, fan_usage, swap_usage, sensor_temperatures]"
  by (simp add: blocks_def)

subsection \<open>The sample session\<close>

lemma xavier_ok: "ok xavier"
  by (simp add: xavier_def)

lemma xavier_board_present: "board_present xavier"
  by (simp add: board_present_def present2_def xavier_def xavier_board_def)

lemma xavier_cores_present: "cores_present xavier 8"
  by (simp add: cores_present_def all_less_8 core_cur_def core_def xavier_def)

lemma xavier_rails_present: "rails_present xavier six_rails q \<longleftrightarrow> q \<in> {''power'', ''volt'', ''curr''}"
  by (auto simp: rails_present_def six_rails_def present3_def present2_def xavier_def
        xavier_rails_def rail_reading_def)

lemma xavier_before_power: "fields_before_power xavier"
  unfolding fields_before_power_def
  by (simp add: xavier_board_present xavier_cores_present)
     (simp add: gpu_present_def ram_present_def disk_present_def fan_present_def
        swap_present_def present3_def present2_def xavier_def)

lemma xavier_all_present: "all_fields_present xavier"
  by (simp add: all_fields_present_def xavier_before_power xavier_rails_present)

subsection \<open>Record labels of the blocks\<close>

lemma add_metrics_labels:
  "add_metrics g xs = Inr g' \<Longrightarrow> map fst (samples g') = map fst (samples g) @ map fst xs"
  by (drule add_metrics_Inr) (simp add: o_def)

lemma board_info_labels: "board_info j = Inr g \<Longrightarrow> map fst (samples g) = [[''info'']]"
  by (auto simp: board_info_def Let_def InfoMetricFamily_def add_metric_def split: sum.splits)

lemma nv_power_mode_labels: "nv_power_mode j = Inr g \<Longrightarrow> map fst (samples g) = [[''mode'']]"
  by (auto simp: nv_power_mode_def Let_def InfoMetricFamily_def add_metric_def split: sum.splits)

lemma system_uptime_labels:
  "system_uptime j = Inr g \<Longrightarrow> map fst (samples g) = [[''days''], [''hours''], [''minutes'']]"
  unfolding system_uptime_def Let_def
  by (drule add_metrics_labels) (simp add: GaugeMetricFamily_def)

lemma cpu_usage_labels:
  "cpu_usage j = Inr g \<Longrightarrow>
     map fst (samples g) =
       [[''cpu_1''], [''cpu_2''], [''cpu_3''], [''cpu_4''], [''cpu_5''], [''cpu_6''],
        [''cpu_7''], [''cpu_8'']]"
  unfolding cpu_usage_def Let_def
  by (drule add_metrics_labels) (simp add: GaugeMetricFamily_def)

lemma gpu_usage_labels: "gpu_usage j = Inr g \<Longrightarrow> map fst (samples g) = [[''val'']]"
  unfolding gpu_usage_def Let_def
  by (drule add_metrics_labels) (simp add: GaugeMetricFamily_def)

lemma ram_usage_labels:
  "ram_usage j = Inr g \<Longrightarrow> map fst (samples g) = [[''used''], [''shared''], [''total'']]"
  unfolding ram_usage_def Let_def
  by (drule add_metrics_labels) (simp add: GaugeMetricFamily_def)

lemma disk_usage_labels:
  "disk_usage j = Inr g \<Longrightarrow>
     map fst (samples g) = [[''used''], [''total''], [''available''], [''available_no_root'']]"
  unfolding disk_usage_def Let_def
  by (drule add_metrics_labels) (simp add: GaugeMetricFamily_def)

lemma fan_usage_labels:
  "fan_usage j = Inr g \<Longrightarrow> map fst (samples g) = [[''speed''], [''rpm'']]"
  unfolding fan_usage_def Let_def
  by (drule add_metrics_labels) (simp add: GaugeMetricFamily_def)

lemma swap_usage_labels:
  "swap_usage j = Inr g \<Longrightarrow> map fst (samples g) = [[''used''], [''total'']]"
  unfolding swap_usage_def Let_def
  by (drule add_metrics_labels) (simp add: GaugeMetricFamily_def)

lemma sensor_temperatures_labels:
  "sensor_temperatures j = Inr g \<Longrightarrow>
     map fst (samples g) =
       [[''ao''], [''gpu''], [''tdiode''], [''aux''], [''cpu''], [''thermal''], [''tboard'']]"
  unfolding sensor_temperatures_def Let_def
  by (drule add_metrics_labels) (simp add: GaugeMetricFamily_def)

lemmas block_labels_before_power =
  board_info_labels nv_power_mode_labels system_uptime_labels cpu_usage_labels
  gpu_usage_labels ram_usage_labels disk_usage_labels fan_usage_labels swap_usage_labels
  sensor_temperatures_labels

subsection \<open>A missing rail\<close>

lemma rail_missing:
  "power_attr j ''rail'' = Some rails \<Longrightarrow> rails r = None \<Longrightarrow> rail j r q = Inl (KeyError r)"
  by (simp add: rail_def)

lemma rail_there:
  "power_attr j ''rail'' = Some rails \<Longrightarrow> present2 rails r q \<Longrightarrow> \<not> isl (rail j r q)"
  by (simp add: isl_rail present3_def)

lemma power_usage_vddrq_missing:
  assumes "power_attr j ''rail'' = Some rails" "rails ''VDDRQ'' = None"
    and "\<forall>r \<in> set [''CPU'', ''CV'', ''GPU'', ''SOC'', ''SYS5V'']. present2 rails r ''power''"
  shows "power_usage j = Inl (KeyError ''VDDRQ'')"
proof -
  from assms(1,3) have ok5: "\<not> isl (rail j ''CPU'' ''power'')" "\<not> isl (rail j ''CV'' ''power'')"
    "\<not> isl (rail j ''GPU'' ''power'')" "\<not> isl (rail j ''SOC'' ''power'')"
    "\<not> isl (rail j ''SYS5V'' ''power'')"
    by (simp_all add: rail_there)
  from assms(1,2) have "rail j ''VDDRQ'' ''power'' = Inl (KeyError ''VDDRQ'')"
    by (rule rail_missing)
  with ok5 show ?thesis
    unfolding power_usage_def Let_def
    by (cases "rail j ''CPU'' ''power''"; cases "rail j ''CV'' ''power''";
        cases "rail j ''GPU'' ''power''"; cases "rail j ''SOC'' ''power''";
        cases "rail j ''SYS5V'' ''power''") simp_all
qed

lemma power_usage_raises:
  "power_attr j ''rail'' = Some rails \<Longrightarrow> rails ''VDDRQ'' = None \<Longrightarrow> isl (power_usage j)"
  by (simp add: isl_power_usage rails_present_def six_rails_def present3_def present2_def)

lemma family_before_power:
  assumes "ok j" "isl (power_usage j)" "g \<in> set (families (collect j))"
  shows "name g \<in> set (take 10 family_names) \<and> [''vddrq''] \<notin> set (map fst (samples g))"
proof -
  from assms have "g \<in> set (families (run_blocks blocks j))"
    by (simp add: collect_def)
  with assms(2) have "\<exists>b \<in> set [board_info, nv_power_mode, system_uptime, cpu_usage, gpu_usage,
      ram_usage, disk_usage, fan_usage, swap_usage, sensor_temperatures]. b j = Inr g"
    unfolding blocks_split_power by (rule run_blocks_families_before)
  then show ?thesis
    by (auto simp: family_names_def dest: block_name block_labels_before_power)
qed

subsection \<open>Names and record counts of the families that are yielded\<close>

lemmas block_name_projr = block_name [OF not_isl_Inr]

lemmas block_labels_projr = block_labels_before_power [OF not_isl_Inr]

lemmas block_len_projr =
  block_labels_projr [THEN arg_cong [where f = length], simplified]

lemma before_power_names:
  assumes "fields_before_power j"
  shows "map name (map (\<lambda>b. projr (b j)) (take 10 blocks)) = take 10 family_names"
    and "map (length \<circ> samples) (map (\<lambda>b. projr (b j)) (take 10 blocks)) =
           [1, 1, 3, 8, 1, 3, 4, 2, 2, 7]"
proof -
  from assms have ok10: "\<not> isl (board_info j)" "\<not> isl (nv_power_mode j)"
    "\<not> isl (system_uptime j)" "\<not> isl (cpu_usage j)" "\<not> isl (gpu_usage j)"
    "\<not> isl (ram_usage j)" "\<not> isl (disk_usage j)" "\<not> isl (fan_usage j)"
    "\<not> isl (swap_usage j)" "\<not> isl (sensor_temperatures j)"
    by (simp_all add: block_isl fields_before_power_def)
  then show "map name (map (\<lambda>b. projr (b j)) (take 10 blocks)) = take 10 family_names"
    by (simp add: take_10_blocks family_names_def block_name_projr)
  from ok10 show "map (length \<circ> samples) (map (\<lambda>b. projr (b j)) (take 10 blocks)) =
           [1, 1, 3, 8, 1, 3, 4, 2, 2, 7]"
    by (simp add: take_10_blocks block_len_projr)
qed

lemma all_present_names:
  assumes "all_fields_present j"
  shows "map name (map (\<lambda>b. projr (b j)) blocks) = family_names"
    and "map labelnames (map (\<lambda>b. projr (b j)) blocks) = map (\<lambda>l. [l]) label_keys"
proof -
  from assms have ok13: "\<not> isl (board_info j)" "\<not> isl (nv_power_mode j)"
    "\<not> isl (system_uptime j)" "\<not> isl (cpu_usage j)" "\<not> isl (gpu_usage j)"
    "\<not> isl (ram_usage j)" "\<not> isl (disk_usage j)" "\<not> isl (fan_usage j)"
    "\<not> isl (swap_usage j)" "\<not> isl (sensor_temperatures j)" "\<not> isl (power_usage j)"
    "\<not> isl (voltage_levels j)" "\<not> isl (current_values j)"
    by (simp_all add: block_isl all_fields_present_def fields_before_power_def)
  then show "map name (map (\<lambda>b. projr (b j)) blocks) = family_names"
    by (simp add: blocks_def family_names_def block_name_projr)
  from ok13 show "map labelnames (map (\<lambda>b. projr (b j)) blocks) = map (\<lambda>l. [l]) label_keys"
    by (simp add: blocks_def label_keys_def block_name_projr)
qed

lemma length_blocks: "length blocks = 13"
  by (simp add: blocks_def)

subsection \<open>The sessions with a field missing\<close>

lemma orin_facts:
  "ok orin" "board_present orin" "cores_present orin 8" "rails_present orin six_rails ''power''"
  "rails_present orin six_rails ''volt''" "rails_present orin six_rails ''curr''"
  using xavier_ok xavier_board_present xavier_cores_present xavier_rails_present
  by (simp_all add: orin_def board_present_def cores_present_def rails_present_def)

lemma collect_orin:
  "collect orin =
     map (\<lambda>b. Yield (projr (b orin))) [board_info, nv_power_mode, system_uptime, cpu_usage] @
     [Raise (KeyError ''gv11b'')]"
proof (rule collect_fail_at)
  show "ok orin" by (rule orin_facts)
  show "blocks = [board_info, nv_power_mode, system_uptime, cpu_usage] @ gpu_usage #
      [ram_usage, disk_usage, fan_usage, swap_usage, sensor_temperatures, power_usage,
       voltage_levels, current_values]"
    by (simp add: blocks_def)
  show "\<forall>b' \<in> set [board_info, nv_power_mode, system_uptime, cpu_usage]. \<not> isl (b' orin)"
    by (simp add: block_isl orin_facts)
  show "gpu_usage orin = Inl (KeyError ''gv11b'')"
    by (simp add: gpu_usage_def Let_def orin_def)
qed

lemma family_named_empty:
  "family_named es n = [] \<longleftrightarrow> (\<forall>g \<in> set (families es). name g \<noteq> n)"
  by (simp add: family_named_def filter_empty_conv)

lemma no_vddrq_facts:
  "ok xavier_no_vddrq" "fields_before_power xavier_no_vddrq"
  "power_attr xavier_no_vddrq ''rail'' = Some (xavier_rails(''VDDRQ'' := None))"
  "(xavier_rails(''VDDRQ'' := None)) ''VDDRQ'' = None"
  "\<forall>r \<in> set [''CPU'', ''CV'', ''GPU'', ''SOC'', ''SYS5V''].
     present2 (xavier_rails(''VDDRQ'' := None)) r ''power''"
proof -
  show "ok xavier_no_vddrq"
    using xavier_ok by (simp add: xavier_no_vddrq_def)
  show "fields_before_power xavier_no_vddrq"
    using xavier_before_power
    by (simp add: xavier_no_vddrq_def fields_before_power_def board_present_def
          cores_present_def gpu_present_def ram_present_def disk_present_def fan_present_def
          swap_present_def)
  show "power_attr xavier_no_vddrq ''rail'' = Some (xavier_rails(''VDDRQ'' := None))"
    by (simp add: xavier_no_vddrq_def)
  show "(xavier_rails(''VDDRQ'' := None)) ''VDDRQ'' = None"
    by simp
  show "\<forall>r \<in> set [''CPU'', ''CV'', ''GPU'', ''SOC'', ''SYS5V''].
     present2 (xavier_rails(''VDDRQ'' := None)) r ''power''"
    by (simp add: present2_def xavier_rails_def rail_reading_def)
qed

subsection \<open>The family of a given name\<close>

lemma family_named_block:
  "g \<in> set (family_named (collect j) n) \<Longrightarrow> \<exists>b \<in> set blocks. b j = Inr g \<and> name g = n"
  by (auto simp: family_named_def dest: collect_families)

lemma named_board_info:
  "g \<in> set (family_named (collect j) ''jetson_info_board'') \<Longrightarrow> board_info j = Inr g"
  by (auto simp: blocks_def dest!: family_named_block block_name)

lemma named_system_uptime:
  "g \<in> set (family_named (collect j) ''jetson_uptime'') \<Longrightarrow> system_uptime j = Inr g"
  by (auto simp: blocks_def dest!: family_named_block block_name)

lemma named_cpu_usage:
  "g \<in> set (family_named (collect j) ''jetson_usage_cpu'') \<Longrightarrow> cpu_usage j = Inr g"
  by (auto simp: blocks_def dest!: family_named_block block_name)

lemma named_sensor_temperatures:
  "g \<in> set (family_named (collect j) ''jetson_temperatures'') \<Longrightarrow> sensor_temperatures j = Inr g"
  by (auto simp: blocks_def dest!: family_named_block block_name)

lemma yielded_family_named:
  assumes "ok j" "blocks = bs @ b # rest" "\<forall>b' \<in> set bs. \<not> isl (b' j)" "b j = Inr g"
  shows "family_named (collect j) (name g) = [g]"
proof -
  from assms(4) have "\<not> isl (b j)" "projr (b j) = g" by simp_all
  with collect_yields [OF assms(1,2,3)] have "g \<in> set (families (collect j))" by simp
  then show ?thesis by (rule family_named_unique)
qed

lemma family_named_system_uptime:
  assumes "ok j" "board_present j" "system_uptime j = Inr g"
  shows "family_named (collect j) ''jetson_uptime'' = [g]"
proof -
  have "blocks = [board_info, nv_power_mode] @ system_uptime #
      [cpu_usage, gpu_usage, ram_usage, disk_usage, fan_usage, swap_usage,
       sensor_temperatures, power_usage, voltage_levels, current_values]"
    by (simp add: blocks_def)
  moreover from assms(2) have "\<forall>b' \<in> set [board_info, nv_power_mode]. \<not> isl (b' j)"
    by (simp add: block_isl)
  ultimately have "family_named (collect j) (name g) = [g]"
    using assms(1,3) by (blast intro: yielded_family_named)
  with system_uptime_name [OF assms(3)] show ?thesis by simp
qed

lemma family_named_cpu_usage:
  assumes "ok j" "board_present j" "cpu_usage j = Inr g"
  shows "family_named (collect j) ''jetson_usage_cpu'' = [g]"
proof -
  have "blocks = [board_info, nv_power_mode, system_uptime] @ cpu_usage #
      [gpu_usage, ram_usage, disk_usage, fan_usage, swap_usage,
       sensor_temperatures, power_usage, voltage_levels, current_values]"
    by (simp add: blocks_def)
  moreover from assms(2) have
    "\<forall>b' \<in> set [board_info, nv_power_mode, system_uptime]. \<not> isl (b' j)"
    by (simp add: block_isl)
  ultimately have "family_named (collect j) (name g) = [g]"
    using assms(1,3) by (blast intro: yielded_family_named)
  with cpu_usage_name [OF assms(3)] show ?thesis by simp
qed

lemma family_named_sensor_temperatures:
  assumes "ok j" "fields_before_power j" "sensor_temperatures j = Inr g"
  shows "family_named (collect j) ''jetson_temperatures'' = [g]"
proof -
  have "blocks = [board_info, nv_power_mode, system_uptime, cpu_usage, gpu_usage, ram_usage,
      disk_usage, fan_usage, swap_usage] @ sensor_temperatures #
      [power_usage, voltage_levels, current_values]"
    by (simp add: blocks_def)
  moreover from assms(2) have
    "\<forall>b' \<in> set [board_info, nv_power_mode, system_uptime, cpu_usage, gpu_usage, ram_usage,
      disk_usage, fan_usage, swap_usage]. \<not> isl (b' j)"
    by (simp add: block_isl fields_before_power_def)
  ultimately have "family_named (collect j) (name g) = [g]"
    using assms(1,3) by (blast intro: yielded_family_named)
  with sensor_temperatures_name [OF assms(3)] show ?thesis by simp
qed

subsection \<open>The records of the uptime and temperature families\<close>

lemma system_uptime_eq:
  "system_uptime j =
     Inr \<lparr>name = ''jetson_uptime'', documentation = ''System uptime'', mtype = ''gauge'',
          labelnames = [''uptime''],
          samples =
            [([''days''], GaugeValue (PyInt (days (uptime j)))),
             ([''hours''], GaugeValue (PyInt (seconds (uptime j) div 3600))),
             ([''minutes''], GaugeValue (PyInt ((seconds (uptime j) div 60) mod 60)))]\<rparr>"
  by (simp add: system_uptime_def Let_def GaugeMetricFamily_def add_metric_def)

lemma sensor_temperatures_eq:
  "sensor_temperatures j =
     Inr \<lparr>name = ''jetson_temperatures'', documentation = ''Sensor temperatures'',
          mtype = ''gauge'', labelnames = [''temperature''],
          samples =
            map (\<lambda>(l, k). ([l], GaugeValue (case temperature j k of None \<Rightarrow> PyInt 0 | Some v \<Rightarrow> v)))
              [(''ao'', ''AO''), (''gpu'', ''GPU''), (''tdiode'', ''Tdiode''), (''aux'', ''AUX''),
               (''cpu'', ''CPU''), (''thermal'', ''thermal''), (''tboard'', ''Tboard'')]\<rparr>"
  by (simp add: sensor_temperatures_def Let_def GaugeMetricFamily_def add_metric_def
        temperature_or_0_eq)

lemma xavier_temperature:
  "temperature xavier = [''CPU'' \<mapsto> PyFloat 45, ''GPU'' \<mapsto> PyFloat (382 / 10)]"
  by (simp add: xavier_def)

lemma xavier_uptime: "days (uptime xavier) = 2" "seconds (uptime xavier) = 10000"
  by (simp_all add: xavier_def)

subsection \<open>The per-core block\<close>

lemma cpu_freq_cur_Some:
  "cpu j ''cpu'' = Some cores \<Longrightarrow> i < length cores \<Longrightarrow> core_cur (cores ! i) = Some v \<Longrightarrow>
     cpu_freq_cur j i = Inr v"
  by (auto simp: cpu_freq_cur_def core_cur_def split: option.splits)

lemma cpu_freq_cur_IndexError:
  "cpu j ''cpu'' = Some cores \<Longrightarrow> \<not> i < length cores \<Longrightarrow> cpu_freq_cur j i = Inl IndexError"
  by (simp add: cpu_freq_cur_def)

lemma cpu_usage_eq:
  assumes "cpu j ''cpu'' = Some cores" "8 \<le> length cores"
    and "\<forall>i<8. core_cur (cores ! i) = Some (fs ! i)"
  shows "cpu_usage j =
     Inr \<lparr>name = ''jetson_usage_cpu'', documentation = ''CPU % schedutil'', mtype = ''gauge'',
          labelnames = [''cpu''],
          samples =
            [([''cpu_1''], GaugeValue (fs ! 0)), ([''cpu_2''], GaugeValue (fs ! 1)),
             ([''cpu_3''], GaugeValue (fs ! 2)), ([''cpu_4''], GaugeValue (fs ! 3)),
             ([''cpu_5''], GaugeValue (fs ! 4)), ([''cpu_6''], GaugeValue (fs ! 5)),
             ([''cpu_7''], GaugeValue (fs ! 6)), ([''cpu_8''], GaugeValue (fs ! 7))]\<rparr>"
proof -
  have "cpu_freq_cur j i = Inr (fs ! i)" if "i < 8" for i
    using assms that by (auto intro: cpu_freq_cur_Some)
  then show ?thesis
    by (simp add: cpu_usage_def Let_def GaugeMetricFamily_def add_metric_def)
qed

lemma cpu_usage_IndexError:
  assumes "cpu j ''cpu'' = Some cores" "length cores < 8"
    and "\<forall>i<length cores. core_cur (cores ! i) \<noteq> None"
  shows "cpu_usage j = Inl IndexError"
proof -
  have "cpu_freq_cur j i =
      (if i < length cores then Inr (the (core_cur (cores ! i))) else Inl IndexError)" for i
    using assms(1,3) by (auto intro: cpu_freq_cur_Some cpu_freq_cur_IndexError)
  with assms(2) show ?thesis
    by (simp add: cpu_usage_def Let_def)
qed

lemma cpu_usage_short:
  "cpu j ''cpu'' = Some cores \<Longrightarrow> length cores < 8 \<Longrightarrow> isl (cpu_usage j)"
  by (simp add: isl_cpu_usage cores_present_def)

lemma collect_raises:
  assumes "ok j" "b \<in> set blocks" "isl (b j)"
  shows "\<exists>e. raised (collect j) = Some e"
proof -
  from assms(2,3) have "raised (run_blocks blocks j) \<noteq> None"
    using raised_run_blocks [of blocks j] by blast
  with assms(1) show ?thesis by (simp add: collect_def)
qed

lemma collect_cpu_IndexError:
  assumes "ok j" "board_present j" "cpu_usage j = Inl e"
  shows "raised (collect j) = Some e"
proof -
  have "blocks = [board_info, nv_power_mode, system_uptime] @ cpu_usage #
      [gpu_usage, ram_usage, disk_usage, fan_usage, swap_usage,
       sensor_temperatures, power_usage, voltage_levels, current_values]"
    by (simp add: blocks_def)
  moreover from assms(2) have
    "\<forall>b' \<in> set [board_info, nv_power_mode, system_uptime]. \<not> isl (b' j)"
    by (simp add: block_isl)
  ultimately have "collect j =
      map (\<lambda>b. Yield (projr (b j))) [board_info, nv_power_mode, system_uptime] @ [Raise e]"
    using assms(1,3) by (blast intro: collect_fail_at)
  then show ?thesis by (simp only: raised_append_Yield_map raised.simps)
qed

subsection \<open>Sessions that the blocks cannot tell apart\<close>

lemma run_blocks_cong:
  "list_all2 (\<lambda>b b'. b j = b' j') bs bs' \<Longrightarrow> run_blocks bs j = run_blocks bs' j'"
  by (induction bs bs' rule: list_all2_induct) (auto split: sum.splits)

lemma collect_cong:
  assumes "ok j = ok j'" "board_info j = board_info j'" "nv_power_mode j = nv_power_mode j'"
    "system_uptime j = system_uptime j'" "cpu_usage j = cpu_usage j'"
    "gpu_usage j = gpu_usage j'" "ram_usage j = ram_usage j'" "disk_usage j = disk_usage j'"
    "fan_usage j = fan_usage j'" "swap_usage j = swap_usage j'"
    "sensor_temperatures j = sensor_temperatures j'" "power_usage j = power_usage j'"
    "voltage_levels j = voltage_levels j'" "current_values j = current_values j'"
  shows "collect j = collect j'"
proof -
  from assms have "list_all2 (\<lambda>b b'. b j = b' j') blocks blocks"
    by (simp add: blocks_def)
  then have "run_blocks blocks j = run_blocks blocks j'"
    by (rule run_blocks_cong)
  with assms(1) show ?thesis by (simp add: collect_def)
qed

lemma cpu_usage_take_8:
  assumes "cpu j ''cpu'' = Some cores" "8 < length cores"
  shows "cpu_usage (j\<lparr>cpu := (cpu j)(''cpu'' \<mapsto> take 8 cores)\<rparr>) = cpu_usage j"
proof -
  have "cpu_freq_cur (j\<lparr>cpu := (cpu j)(''cpu'' \<mapsto> take 8 cores)\<rparr>) i = cpu_freq_cur j i"
    if "i < 8" for i
    using assms that by (simp add: cpu_freq_cur_def)
  then show ?thesis
    by (simp add: cpu_usage_def Let_def)
qed

lemma collect_take_8:
  assumes "cpu j ''cpu'' = Some cores" "8 < length cores"
  shows "collect j = collect (j\<lparr>cpu := (cpu j)(''cpu'' \<mapsto> take 8 cores)\<rparr>)"
proof (rule collect_cong)
  show "cpu_usage j = cpu_usage (j\<lparr>cpu := (cpu j)(''cpu'' \<mapsto> take 8 cores)\<rparr>)"
    using assms by (simp add: cpu_usage_take_8)
qed (simp_all add: board_info_def board_items_def nv_power_mode_def system_uptime_def
      gpu_usage_def ram_usage_def disk_usage_def fan_usage_def swap_usage_def
      sensor_temperatures_def temperature_or_0_def power_usage_def voltage_levels_def
      current_values_def rail_def)

subsection \<open>The sessions with eight, six and nine cores\<close>

lemma xavier_cpu:
  "cpu xavier ''cpu'' = Some (map core [100, 200, 300, 400, 500, 600, 700, 800])"
  by (simp add: xavier_def)

lemma xavier_core_cur:
  "\<forall>i<8. core_cur (map core [100, 200, 300, 400, 500, 600, 700, 800] ! i) =
     Some (map PyInt [100, 200, 300, 400, 500, 600, 700, 800] ! i)"
  by (simp add: all_less_8 core_cur_def core_def)

lemma six_cores_facts:
  "ok xavier_six_cores" "board_present xavier_six_cores"
  "cpu xavier_six_cores ''cpu'' = Some (map core [100, 200, 300, 400, 500, 600])"
  "\<forall>i<length (map core [100, 200, 300, 400, 500, 600]).
     core_cur (map core [100, 200, 300, 400, 500, 600] ! i) \<noteq> None"
proof -
  show "ok xavier_six_cores"
    using xavier_ok by (simp add: xavier_six_cores_def)
  show "board_present xavier_six_cores"
    using xavier_board_present by (simp add: xavier_six_cores_def board_present_def)
  show "cpu xavier_six_cores ''cpu'' = Some (map core [100, 200, 300, 400, 500, 600])"
    by (simp add: xavier_six_cores_def)
  have "{..<6::nat} = {0, 1, 2, 3, 4, 5}" by auto
  then have "\<forall>i \<in> {..<6::nat}. core_cur (map core [100, 200, 300, 400, 500, 600] ! i) \<noteq> None"
    by (simp add: core_cur_def core_def)
  then show "\<forall>i<length (map core [100, 200, 300, 400, 500, 600]).
     core_cur (map core [100, 200, 300, 400, 500, 600] ! i) \<noteq> None"
    by simp
qed

lemma nine_cores_facts:
  "ok xavier_nine_cores" "board_present xavier_nine_cores"
  "cpu xavier_nine_cores ''cpu'' =
     Some (map core [100, 200, 300, 400, 500, 600, 700, 800, 900])"
  "\<forall>i<8. core_cur (map core [100, 200, 300, 400, 500, 600, 700, 800, 900] ! i) =
     Some (map PyInt [100, 200, 300, 400, 500, 600, 700, 800, 900] ! i)"
  "all_fields_present xavier_nine_cores"
proof -
  show "ok xavier_nine_cores"
    using xavier_ok by (simp add: xavier_nine_cores_def)
  show "board_present xavier_nine_cores"
    using xavier_board_present by (simp add: xavier_nine_cores_def board_present_def)
  show "cpu xavier_nine_cores ''cpu'' =
     Some (map core [100, 200, 300, 400, 500, 600, 700, 800, 900])"
    by (simp add: xavier_nine_cores_def)
  show c: "\<forall>i<8. core_cur (map core [100, 200, 300, 400, 500, 600, 700, 800, 900] ! i) =
     Some (map PyInt [100, 200, 300, 400, 500, 600, 700, 800, 900] ! i)"
    by (simp add: all_less_8 core_cur_def core_def)
  have "cores_present xavier_nine_cores 8"
    by (simp add: cores_present_def xavier_nine_cores_def all_less_8 core_cur_def core_def)
  with xavier_all_present show "all_fields_present xavier_nine_cores"
    by (simp add: xavier_nine_cores_def all_fields_present_def fields_before_power_def
          board_present_def gpu_present_def ram_present_def disk_present_def fan_present_def
          swap_present_def rails_present_def)
qed

subsection \<open>The board block\<close>

lemma dict_literal_Inl: "dict_literal xs = Inl e \<Longrightarrow> \<exists>x \<in> set xs. snd x = Inl e"
  by (induction xs rule: dict_literal.induct) (auto split: sum.splits)

lemma getitem2_KeyError:
  "getitem (getitem (Inr d) a) b = Inl e \<Longrightarrow> e = KeyError a \<or> e = KeyError b"
  by (auto split: option.splits)

lemma board_info_KeyError:
  assumes "isl (board_info j)"
  shows "\<exists>k. board_info j = Inl (KeyError k)"
proof -
  from assms obtain e where e: "board_info j = Inl e"
    by (cases "board_info j") auto
  then have "dict_literal (board_items j) = Inl e"
    by (auto simp: board_info_def Let_def split: sum.splits)
  then have "\<exists>x \<in> set (board_items j). snd x = Inl e"
    by (rule dict_literal_Inl)
  then have "\<exists>k. e = KeyError k"
    unfolding board_items_def by (auto dest!: getitem2_KeyError simp del: getitem_Inr)
  with e show ?thesis by blast
qed

lemma board_info_samples:
  assumes "board_info j = Inr g"
  shows "samples g = [([''info''], InfoValue (map (\<lambda>x. (fst x, projr (snd x))) (board_items j)))]"
proof -
  from assms obtain d where d: "dict_literal (board_items j) = Inr d"
    and g: "g = add_metric (InfoMetricFamily ''jetson_info_board'' ''Board sys info''
      [''board_info'']) [''info''] (InfoValue d)"
    by (auto simp: board_info_def Let_def split: sum.splits)
  from d have "d = map (\<lambda>x. (fst x, projr (snd x))) (board_items j)"
    by (rule dict_literal_Inr)
  with g show ?thesis
    by (simp add: add_metric_def InfoMetricFamily_def)
qed

lemma board_items_keys:
  "map fst (board_items j) =
     [''machine'', ''distribution'', ''release'', ''jetpack'', ''l4t'', ''module'', ''type'',
      ''codename'', ''soc'', ''cuda_arch_bin'', ''serial_number'']"
  by (simp add: board_items_def)

lemma family_named_board_info:
  assumes "ok j" "board_info j = Inr g"
  shows "family_named (collect j) ''jetson_info_board'' = [g]"
proof -
  have "blocks = [] @ board_info #
      [nv_power_mode, system_uptime, cpu_usage, gpu_usage, ram_usage, disk_usage, fan_usage,
       swap_usage, sensor_temperatures, power_usage, voltage_levels, current_values]"
    by (simp add: blocks_def)
  from yielded_family_named [OF assms(1) this _ assms(2)]
  have "family_named (collect j) (name g) = [g]" by simp
  with board_info_name [OF assms(2)] show ?thesis by simp
qed

lemma collect_board_fails:
  assumes "ok j" "board_info j = Inl e"
  shows "collect j = [Raise e]"
proof -
  have "blocks = [] @ board_info #
      [nv_power_mode, system_uptime, cpu_usage, gpu_usage, ram_usage, disk_usage, fan_usage,
       swap_usage, sensor_temperatures, power_usage, voltage_levels, current_values]"
    by (simp add: blocks_def)
  from collect_fail_at [OF assms(1) this _ assms(2)] show ?thesis by simp
qed

lemma partial_board_facts:
  "ok xavier_partial_board" "\<not> board_present xavier_partial_board"
  by (simp_all add: xavier_partial_board_def xavier_def board_present_def present2_def)

lemma xavier_board_items:
  "map (\<lambda>x. (fst x, projr (snd x))) (board_items xavier) =
     [(''machine'', ''aarch64''), (''distribution'', ''Ubuntu 20.04''),
      (''release'', ''5.10.104-tegra''), (''jetpack'', ''5.1.1''), (''l4t'', ''35.3.1''),
      (''module'', ''AGX Xavier''), (''type'', ''Jetson AGX Xavier''), (''codename'', ''galen''),
      (''soc'', ''tegra194''), (''cuda_arch_bin'', ''7.2''),
      (''serial_number'', ''0423018012345'')]"
  by (simp add: board_items_def xavier_def xavier_board_def)

lemma orin_nine_facts:
  "ok orin_nine_cores" "board_present orin_nine_cores" "cores_present orin_nine_cores 8"
  "cpu orin_nine_cores ''cpu'' = Some (map core [100, 200, 300, 400, 500, 600, 700, 800, 900])"
proof -
  show "ok orin_nine_cores"
    using nine_cores_facts(1) by (simp add: orin_nine_cores_def)
  show "board_present orin_nine_cores"
    using nine_cores_facts(2) by (simp add: orin_nine_cores_def board_present_def)
  show "cpu orin_nine_cores ''cpu'' = Some (map core [100, 200, 300, 400, 500, 600, 700, 800, 900])"
    using nine_cores_facts(3) by (simp add: orin_nine_cores_def)
  from nine_cores_facts(5) have "cores_present xavier_nine_cores 8"
    by (simp add: all_fields_present_def fields_before_power_def)
  then show "cores_present orin_nine_cores 8"
    by (simp add: orin_nine_cores_def cores_present_def)
qed

lemma collect_orin_nine:
  "collect orin_nine_cores =
     map (\<lambda>b. Yield (projr (b orin_nine_cores)))
       [board_info, nv_power_mode, system_uptime, cpu_usage] @
     [Raise (KeyError ''gv11b'')]"
proof (rule collect_fail_at)
  show "ok orin_nine_cores" by (rule orin_nine_facts)
  show "blocks = [board_info, nv_power_mode, system_uptime, cpu_usage] @ gpu_usage #
      [ram_usage, disk_usage, fan_usage, swap_usage, sensor_temperatures, power_usage,
       voltage_levels, current_values]"
    by (simp add: blocks_def)
  show "\<forall>b' \<in> set [board_info, nv_power_mode, system_uptime, cpu_usage].
      \<not> isl (b' orin_nine_cores)"
    by (simp add: block_isl orin_nine_facts)
  show "gpu_usage orin_nine_cores = Inl (KeyError ''gv11b'')"
    by (simp add: gpu_usage_def Let_def orin_nine_cores_def)
qed

subsection \<open>The pass on the store\<close>

lemma add_metric_at_last:
  "add_metric_at (length s) ls v (s @ [g]) = s @ [add_metric g ls v]"
  by (simp add: add_metric_at_def)

lemma add_metrics_at_last:
  "add_metrics_at (length s) items (s @ [g]) = (r, s') \<Longrightarrow>
     \<exists>g'. s' = s @ [g'] \<and>
       (case r of None \<Rightarrow> add_metrics g items = Inr g' | Some e \<Rightarrow> add_metrics g items = Inl e)"
  by (induction g items arbitrary: r s' rule: add_metrics.induct)
     (auto simp: add_metric_at_last split: option.splits)

lemma gauge_block_at_eq:
  "\<exists>g'. gauge_block_at n d ls items s =
     (add_metrics (GaugeMetricFamily n d ls) items, s @ [g'])"
proof -
  obtain r s' where r: "add_metrics_at (length s) items (s @ [GaugeMetricFamily n d ls]) = (r, s')"
    by (cases "add_metrics_at (length s) items (s @ [GaugeMetricFamily n d ls])")
  from add_metrics_at_last [OF r] obtain g' where g': "s' = s @ [g']"
    "case r of None \<Rightarrow> add_metrics (GaugeMetricFamily n d ls) items = Inr g'
     | Some e \<Rightarrow> add_metrics (GaugeMetricFamily n d ls) items = Inl e"
    by blast
  with r have "gauge_block_at n d ls items s =
     (add_metrics (GaugeMetricFamily n d ls) items, s @ [g'])"
    by (cases r) (simp_all add: gauge_block_at_def alloc_def)
  then show ?thesis by blast
qed

lemma info_block_at_eq:
  "\<exists>g'. info_block_at n d ls lv items s =
     ((case dict_literal items of
         Inl e \<Rightarrow> Inl e
       | Inr dict \<Rightarrow> Inr (add_metric (InfoMetricFamily n d ls) lv (InfoValue dict))),
      s @ [g'])"
  by (cases "dict_literal items")
     (simp_all add: info_block_at_def alloc_def add_metric_at_last)

lemma refines_board_info: "refines j board_info_at board_info"
  unfolding refines_def board_info_at_def board_info_def Let_def
  by (intro allI info_block_at_eq)

lemma refines_nv_power_mode: "refines j nv_power_mode_at nv_power_mode"
  unfolding refines_def nv_power_mode_at_def nv_power_mode_def Let_def
  by (intro allI info_block_at_eq)

lemma refines_system_uptime: "refines j system_uptime_at system_uptime"
  unfolding refines_def system_uptime_at_def system_uptime_def Let_def
  by (intro allI gauge_block_at_eq)

lemma refines_cpu_usage: "refines j cpu_usage_at cpu_usage"
  unfolding refines_def cpu_usage_at_def cpu_usage_def Let_def
  by (intro allI gauge_block_at_eq)

lemma refines_gpu_usage: "refines j gpu_usage_at gpu_usage"
  unfolding refines_def gpu_usage_at_def gpu_usage_def Let_def
  by (intro allI gauge_block_at_eq)

lemma refines_ram_usage: "refines j ram_usage_at ram_usage"
  unfolding refines_def ram_usage_at_def ram_usage_def Let_def
  by (intro allI gauge_block_at_eq)

lemma refines_disk_usage: "refines j disk_usage_at disk_usage"
  unfolding refines_def disk_usage_at_def disk_usage_def Let_def
  by (intro allI gauge_block_at_eq)

lemma refines_fan_usage: "refines j fan_usage_at fan_usage"
  unfolding refines_def fan_usage_at_def fan_usage_def Let_def
  by (intro allI gauge_block_at_eq)

lemma refines_swap_usage: "refines j swap_usage_at swap_usage"
  unfolding refines_def swap_usage_at_def swap_usage_def Let_def
  by (intro allI gauge_block_at_eq)

lemma refines_sensor_temperatures: "refines j sensor_temperatures_at sensor_temperatures"
  unfolding refines_def sensor_temperatures_at_def sensor_temperatures_def Let_def
  by (intro allI gauge_block_at_eq)

lemma refines_power_usage: "refines j power_usage_at power_usage"
  unfolding refines_def power_usage_at_def power_usage_def Let_def
  by (intro allI gauge_block_at_eq)

lemma refines_voltage_levels: "refines j voltage_levels_at voltage_levels"
  unfolding refines_def voltage_levels_at_def voltage_levels_def Let_def
  by (intro allI gauge_block_at_eq)

lemma refines_current_values: "refines j current_values_at current_values"
  unfolding refines_def current_values_at_def current_values_def Let_def
  by (intro allI gauge_block_at_eq)

lemma refines_blocks: "list_all2 (refines j) blocks_at blocks"
  by (simp add: blocks_at_def blocks_def refines_board_info refines_nv_power_mode
        refines_system_uptime refines_cpu_usage refines_gpu_usage refines_ram_usage
        refines_disk_usage refines_fan_usage refines_swap_usage refines_sensor_temperatures
        refines_power_usage refines_voltage_levels refines_current_values)

lemma run_blocks_at_refines:
  "list_all2 (refines j) bas bs \<Longrightarrow>
     \<exists>gs. run_blocks_at bas j s = (run_blocks bs j, s @ gs)"
proof (induction bas bs arbitrary: s rule: list_all2_induct)
  case Nil
  then show ?case by simp
next
  case (Cons ba bas b bs)
  from Cons.hyps(1) obtain g' where b: "ba j s = (b j, s @ [g'])"
    unfolding refines_def by blast
  show ?case
  proof (cases "b j")
    case (Inl e)
    with b have "run_blocks_at (ba # bas) j s = (run_blocks (b # bs) j, s @ [g'])"
      by simp
    then show ?thesis by blast
  next
    case (Inr g)
    from Cons.IH [of "s @ [g']"] obtain gs where
      "run_blocks_at bas j (s @ [g']) = (run_blocks bs j, (s @ [g']) @ gs)"
      by blast
    with b Inr have "run_blocks_at (ba # bas) j s = (run_blocks (b # bs) j, s @ (g' # gs))"
      by simp
    then show ?thesis by blast
  qed
qed

lemma collect_at_refines: "\<exists>gs. collect_at j s = (collect j, s @ gs)"
proof (cases "ok j")
  case True
  with run_blocks_at_refines [OF refines_blocks, of j s] show ?thesis
    by (simp add: collect_at_def collect_def)
next
  case False
  then have "collect_at j s = (collect j, s @ [])"
    by (simp add: collect_at_def collect_def)
  then show ?thesis by blast
qed

lemma fst_collect_at: "fst (collect_at j s) = collect j"
  using collect_at_refines [of j s] by auto

section \<open>The claims\<close>

text \<open>
  C2. When the liveness check \<^verbatim>\<open>ok()\<close> answers false at the start of a pass, the
  generator yields nothing and raises nothing: the trace is empty, whatever the session
  holds otherwise.
\<close>

theorem C2_dead_session_yields_nothing:
  "\<not> ok j \<Longrightarrow> collect j = []"
  by (simp add: collect_def)

theorem C2_dead_session_witness:
  "\<not> ok (xavier\<lparr>ok := False\<rparr>) \<and> collect (xavier\<lparr>ok := False\<rparr>) = []"
  using C2_dead_session_yields_nothing [of "xavier\<lparr>ok := False\<rparr>"] by simp

text \<open>
  C1 (as amended). For every live session in which every field the blocks subscript is
  present (the board identity fields, eight per-core entries with a current frequency,
  the load of the GPU \<^verbatim>\<open>gv11b\<close>, the RAM, disk, fan and swap figures and all six rails
  with power, voltage and current), the generator raises nothing and yields exactly
  thirteen families: board info, power mode, uptime, CPU, GPU, RAM, disk, fan, swap,
  temperatures, power, voltage and current. Their names and label keys are the fixed
  lists \<open>family_names\<close> and \<open>label_keys\<close>, whatever the values of the fields.
\<close>

theorem C1_thirteen_families:
  assumes "ok j" "all_fields_present j"
  shows "raised (collect j) = None \<and> length (families (collect j)) = 13 \<and>
         map name (families (collect j)) = family_names \<and>
         map labelnames (families (collect j)) = map (\<lambda>l. [l]) label_keys"
proof -
  from assms have "collect j = map (\<lambda>b. Yield (projr (b j))) blocks"
    by (rule collect_all_ok)
  then have r: "raised (collect j) = None"
    and f: "families (collect j) = map (\<lambda>b. projr (b j)) blocks"
    by simp_all
  from f have "length (families (collect j)) = 13"
    by (simp add: length_blocks)
  with r show ?thesis
    unfolding f by (simp only: all_present_names [OF assms(2)] simp_thms)
qed

theorem C1_thirteen_families_witness:
  "ok xavier \<and> all_fields_present xavier \<and> raised (collect xavier) = None \<and>
   length (families (collect xavier)) = 13 \<and>
   map name (families (collect xavier)) = family_names \<and>
   map labelnames (families (collect xavier)) = map (\<lambda>l. [l]) label_keys"
  using C1_thirteen_families [OF xavier_ok xavier_all_present] xavier_ok xavier_all_present
  by simp

text \<open>
  The claim as stated fails twice. The sample session has every field and yields
  thirteen families, not twelve. And a session that has the board identity, eight cores
  and six rails, but whose GPU is not called \<^verbatim>\<open>gv11b\<close>, yields four families and
  then raises.
\<close>

theorem C1_counterexample:
  "(ok xavier \<and> board_present xavier \<and> cores_present xavier 8 \<and>
    rails_present xavier six_rails ''power'' \<and> rails_present xavier six_rails ''volt'' \<and>
    rails_present xavier six_rails ''curr'' \<and>
    raised (collect xavier) = None \<and> length (families (collect xavier)) \<noteq> 12) \<and>
   (ok orin \<and> board_present orin \<and> cores_present orin 8 \<and>
    rails_present orin six_rails ''power'' \<and> rails_present orin six_rails ''volt'' \<and>
    rails_present orin six_rails ''curr'' \<and>
    raised (collect orin) = Some (KeyError ''gv11b'') \<and>
    length (families (collect orin)) \<noteq> 12)"
proof -
  have "collect xavier = map (\<lambda>b. Yield (projr (b xavier))) blocks"
    by (rule collect_all_ok [OF xavier_ok xavier_all_present])
  then have "raised (collect xavier) = None" "length (families (collect xavier)) = 13"
    by (simp_all add: length_blocks)
  moreover have "raised (collect orin) = Some (KeyError ''gv11b'')"
    "length (families (collect orin)) = 4"
    by (simp_all add: collect_orin)
  ultimately show ?thesis
    using xavier_ok xavier_board_present xavier_cores_present xavier_rails_present orin_facts
    by simp
qed

text \<open>
  C3. For every live session whose rail mapping has no rail \<^verbatim>\<open>VDDRQ\<close>, the generator
  ends in an exception (the \<^verbatim>\<open>KeyError\<close> for \<^verbatim>\<open>VDDRQ\<close> when the earlier blocks and
  the other five rails are complete, an earlier lookup failure otherwise), and the trace
  holds no power, voltage or current family, not even a partial one. No yielded family
  has a record labelled \<^verbatim>\<open>vddrq\<close>: the missing rail is not turned into a value.
\<close>

theorem C3_missing_rail_raises:
  assumes "ok j" "power_attr j ''rail'' = Some rails" "rails ''VDDRQ'' = None"
  shows "(\<exists>e. raised (collect j) = Some e) \<and>
         family_named (collect j) ''jetson_usage_power'' = [] \<and>
         family_named (collect j) ''jetson_usage_voltage_levels'' = [] \<and>
         family_named (collect j) ''jetson_usage_current_values'' = [] \<and>
         (\<forall>g \<in> set (families (collect j)). [''vddrq''] \<notin> set (map fst (samples g))) \<and>
         (fields_before_power j \<and>
          (\<forall>r \<in> set [''CPU'', ''CV'', ''GPU'', ''SOC'', ''SYS5V'']. present2 rails r ''power'')
          \<longrightarrow> raised (collect j) = Some (KeyError ''VDDRQ''))"
proof -
  from assms(2,3) have p: "isl (power_usage j)"
    by (rule power_usage_raises)
  have "power_usage \<in> set blocks"
    by (simp add: blocks_def)
  with p have "raised (run_blocks blocks j) \<noteq> None"
    using raised_run_blocks [of blocks j] by blast
  with assms(1) have 1: "\<exists>e. raised (collect j) = Some e"
    by (simp add: collect_def)
  have before: "name g \<in> set (take 10 family_names) \<and> [''vddrq''] \<notin> set (map fst (samples g))"
    if "g \<in> set (families (collect j))" for g
    using assms(1) p that by (rule family_before_power)
  then have "\<forall>g \<in> set (families (collect j)). name g \<in> set (take 10 family_names)"
    by blast
  then have "\<forall>g \<in> set (families (collect j)).
      name g \<noteq> ''jetson_usage_power'' \<and> name g \<noteq> ''jetson_usage_voltage_levels'' \<and>
      name g \<noteq> ''jetson_usage_current_values''"
    by (auto simp: family_names_def)
  then have 2: "family_named (collect j) ''jetson_usage_power'' = []"
    and 3: "family_named (collect j) ''jetson_usage_voltage_levels'' = []"
    and 4: "family_named (collect j) ''jetson_usage_current_values'' = []"
    unfolding family_named_empty by blast+
  from before have 5: "\<forall>g \<in> set (families (collect j)). [''vddrq''] \<notin> set (map fst (samples g))"
    by blast
  have 6: "raised (collect j) = Some (KeyError ''VDDRQ'')"
    if "fields_before_power j"
      "\<forall>r \<in> set [''CPU'', ''CV'', ''GPU'', ''SOC'', ''SYS5V'']. present2 rails r ''power''"
  proof -
    from assms(2,3) that(2) have "power_usage j = Inl (KeyError ''VDDRQ'')"
      by (rule power_usage_vddrq_missing)
    with assms(1) blocks_split_power before_power_ok [OF that(1)]
    have "collect j =
        map (\<lambda>b. Yield (projr (b j)))
          [board_info, nv_power_mode, system_uptime, cpu_usage, gpu_usage, ram_usage,
           disk_usage, fan_usage, swap_usage, sensor_temperatures] @
        [Raise (KeyError ''VDDRQ'')]"
      by (rule collect_fail_at)
    then show ?thesis by (simp only: raised_append_Yield_map raised.simps)
  qed
  from 1 2 3 4 5 6 show ?thesis by blast
qed

theorem C3_missing_rail_witness:
  "ok xavier_no_vddrq \<and>
   power_attr xavier_no_vddrq ''rail'' = Some (xavier_rails(''VDDRQ'' := None)) \<and>
   (xavier_rails(''VDDRQ'' := None)) ''VDDRQ'' = None \<and>
   fields_before_power xavier_no_vddrq \<and>
   list_all (\<lambda>r. present2 (xavier_rails(''VDDRQ'' := None)) r ''power'')
     [''CPU'', ''CV'', ''GPU'', ''SOC'', ''SYS5V''] \<and>
   raised (collect xavier_no_vddrq) = Some (KeyError ''VDDRQ'') \<and>
   family_named (collect xavier_no_vddrq) ''jetson_usage_power'' = [] \<and>
   family_named (collect xavier_no_vddrq) ''jetson_usage_voltage_levels'' = [] \<and>
   family_named (collect xavier_no_vddrq) ''jetson_usage_current_values'' = [] \<and>
   list_all (\<lambda>g. [''vddrq''] \<notin> set (map fst (samples g))) (families (collect xavier_no_vddrq))"
  unfolding list_all_iff
  using C3_missing_rail_raises [OF no_vddrq_facts(1,3,4)] no_vddrq_facts
  by blast

text \<open>
  C10. The generator is not atomic across the sequence. When block number \<open>i\<close> is the
  first to raise, the trace is the complete families of the blocks before it, in order,
  followed by the exception. In the case of the missing rail \<^verbatim>\<open>VDDRQ\<close> (everything
  before the power block present, the other five rails with their power) these are the
  ten families from board info to temperatures, each with all its records, and then the
  \<^verbatim>\<open>KeyError\<close>.
\<close>

theorem C10_families_before_the_failure:
  fixes j :: "'a jtop_scheme"
  assumes "ok j"
  shows "(i < length (blocks :: ('a jtop_scheme \<Rightarrow> error + family) list) \<and> (\<forall>b \<in> set (take i blocks). \<not> isl (b j)) \<and> (blocks ! i) j = Inl e
          \<longrightarrow> collect j = map (\<lambda>b. Yield (projr (b j))) (take i blocks) @ [Raise e]) \<and>
         (fields_before_power j \<and> power_attr j ''rail'' = Some rails \<and> rails ''VDDRQ'' = None \<and>
          (\<forall>r \<in> set [''CPU'', ''CV'', ''GPU'', ''SOC'', ''SYS5V'']. present2 rails r ''power'')
          \<longrightarrow> collect j =
                map (\<lambda>b. Yield (projr (b j))) (take 10 blocks) @ [Raise (KeyError ''VDDRQ'')] \<and>
              map name (families (collect j)) = take 10 family_names \<and>
              map (length \<circ> samples) (families (collect j)) = [1, 1, 3, 8, 1, 3, 4, 2, 2, 7])"
proof (intro conjI impI)
  assume a: "i < length (blocks :: ('a jtop_scheme \<Rightarrow> error + family) list) \<and> (\<forall>b \<in> set (take i blocks). \<not> isl (b j)) \<and> (blocks ! i) j = Inl e"
  then show "collect j = map (\<lambda>b. Yield (projr (b j))) (take i blocks) @ [Raise e]"
    by (auto intro!: collect_fail_at [OF assms id_take_nth_drop])
next
  assume a: "fields_before_power j \<and> power_attr j ''rail'' = Some rails \<and> rails ''VDDRQ'' = None \<and>
          (\<forall>r \<in> set [''CPU'', ''CV'', ''GPU'', ''SOC'', ''SYS5V'']. present2 rails r ''power'')"
  then have p: "power_usage j = Inl (KeyError ''VDDRQ'')"
    by (blast intro: power_usage_vddrq_missing)
  from a have b: "fields_before_power j" by blast
  show c: "collect j =
      map (\<lambda>b. Yield (projr (b j))) (take 10 blocks) @ [Raise (KeyError ''VDDRQ'')]"
    unfolding take_10_blocks
    by (rule collect_fail_at [OF assms blocks_split_power before_power_ok [OF b] p])
  then have f: "families (collect j) = map (\<lambda>b. projr (b j)) (take 10 blocks)"
    by (simp only: families_append_Yield_map families.simps append_Nil2)
  from a show "map name (families (collect j)) = take 10 family_names"
    unfolding f by (blast intro: before_power_names)
  from a show "map (length \<circ> samples) (families (collect j)) = [1, 1, 3, 8, 1, 3, 4, 2, 2, 7]"
    unfolding f by (blast intro: before_power_names)
qed

theorem C10_families_before_the_failure_witness:
  "ok xavier_no_vddrq \<and> 10 < length (blocks :: (jtop \<Rightarrow> error + family) list) \<and>
   list_all (\<lambda>b. \<not> isl (b xavier_no_vddrq)) (take 10 blocks) \<and>
   (blocks ! 10) xavier_no_vddrq = Inl (KeyError ''VDDRQ'') \<and>
   fields_before_power xavier_no_vddrq \<and>
   power_attr xavier_no_vddrq ''rail'' = Some (xavier_rails(''VDDRQ'' := None)) \<and>
   (xavier_rails(''VDDRQ'' := None)) ''VDDRQ'' = None \<and>
   list_all (\<lambda>r. present2 (xavier_rails(''VDDRQ'' := None)) r ''power'')
     [''CPU'', ''CV'', ''GPU'', ''SOC'', ''SYS5V''] \<and>
   collect xavier_no_vddrq =
     map (\<lambda>b. Yield (projr (b xavier_no_vddrq))) (take 10 blocks) @ [Raise (KeyError ''VDDRQ'')] \<and>
   map name (families (collect xavier_no_vddrq)) = take 10 family_names \<and>
   map (length \<circ> samples) (families (collect xavier_no_vddrq)) = [1, 1, 3, 8, 1, 3, 4, 2, 2, 7]"
proof -
  have p: "power_usage xavier_no_vddrq = Inl (KeyError ''VDDRQ'')"
    using no_vddrq_facts(3,4,5) by (rule power_usage_vddrq_missing)
  have b: "\<forall>b \<in> set (take 10 blocks). \<not> isl (b xavier_no_vddrq)"
    unfolding take_10_blocks using no_vddrq_facts(2) by (rule before_power_ok)
  have n: "(blocks ! 10) xavier_no_vddrq = Inl (KeyError ''VDDRQ'')"
    using p by (simp add: blocks_def)
  have l: "10 < length (blocks :: (jtop \<Rightarrow> error + family) list)"
    by (simp add: length_blocks)
  from C10_families_before_the_failure [OF no_vddrq_facts(1), of 10 "KeyError ''VDDRQ''"
      "xavier_rails(''VDDRQ'' := None)"] no_vddrq_facts b n l
  show ?thesis unfolding list_all_iff by blast
qed

text \<open>
  C4. For every live session the temperature block raises nothing and builds a family of
  exactly seven records, labelled ao, gpu, tdiode, aux, cpu, thermal, tboard in this
  order; the record of a sensor (AO, GPU, Tdiode, AUX, CPU, thermal, Tboard) carries the
  reading of the temperature mapping, and 0 when the mapping has no such sensor. Every
  family of that name in the trace is this family, and the trace holds exactly this one
  when the blocks before it complete. For the mapping with only CPU = 45.0 and
  GPU = 38.2 the records are ao=0, gpu=38.2, tdiode=0, aux=0, cpu=45.0, thermal=0,
  tboard=0.
\<close>

theorem C4_temperature_defaults:
  assumes "ok j"
  shows "\<exists>g. sensor_temperatures j = Inr g \<and>
           samples g =
             map (\<lambda>(l, k). ([l], GaugeValue (case temperature j k of None \<Rightarrow> PyInt 0 | Some v \<Rightarrow> v)))
               [(''ao'', ''AO''), (''gpu'', ''GPU''), (''tdiode'', ''Tdiode''), (''aux'', ''AUX''),
                (''cpu'', ''CPU''), (''thermal'', ''thermal''), (''tboard'', ''Tboard'')] \<and>
           length (samples g) = 7 \<and>
           set (family_named (collect j) ''jetson_temperatures'') \<subseteq> {g} \<and>
           (fields_before_power j \<longrightarrow> family_named (collect j) ''jetson_temperatures'' = [g]) \<and>
           (temperature j = [''CPU'' \<mapsto> PyFloat 45, ''GPU'' \<mapsto> PyFloat (382 / 10)] \<longrightarrow>
              samples g =
                [([''ao''], GaugeValue (PyInt 0)), ([''gpu''], GaugeValue (PyFloat (382 / 10))),
                 ([''tdiode''], GaugeValue (PyInt 0)), ([''aux''], GaugeValue (PyInt 0)),
                 ([''cpu''], GaugeValue (PyFloat 45)), ([''thermal''], GaugeValue (PyInt 0)),
                 ([''tboard''], GaugeValue (PyInt 0))])"
proof -
  obtain g where g: "sensor_temperatures j = Inr g"
    using sensor_temperatures_eq [of j] by blast
  with sensor_temperatures_eq [of j] have s: "samples g =
      map (\<lambda>(l, k). ([l], GaugeValue (case temperature j k of None \<Rightarrow> PyInt 0 | Some v \<Rightarrow> v)))
        [(''ao'', ''AO''), (''gpu'', ''GPU''), (''tdiode'', ''Tdiode''), (''aux'', ''AUX''),
         (''cpu'', ''CPU''), (''thermal'', ''thermal''), (''tboard'', ''Tboard'')]"
    by auto
  then have l: "length (samples g) = 7" by simp
  have sub: "set (family_named (collect j) ''jetson_temperatures'') \<subseteq> {g}"
    using g by (auto dest: named_sensor_temperatures)
  have one: "family_named (collect j) ''jetson_temperatures'' = [g]" if "fields_before_power j"
    using assms that g by (rule family_named_sensor_temperatures)
  have ex: "samples g =
      [([''ao''], GaugeValue (PyInt 0)), ([''gpu''], GaugeValue (PyFloat (382 / 10))),
       ([''tdiode''], GaugeValue (PyInt 0)), ([''aux''], GaugeValue (PyInt 0)),
       ([''cpu''], GaugeValue (PyFloat 45)), ([''thermal''], GaugeValue (PyInt 0)),
       ([''tboard''], GaugeValue (PyInt 0))]"
    if "temperature j = [''CPU'' \<mapsto> PyFloat 45, ''GPU'' \<mapsto> PyFloat (382 / 10)]"
    unfolding s that by simp
  from g s l sub one ex show ?thesis by blast
qed

theorem C4_temperature_defaults_witness:
  "ok xavier \<and> fields_before_power xavier \<and>
   temperature xavier = [''CPU'' \<mapsto> PyFloat 45, ''GPU'' \<mapsto> PyFloat (382 / 10)] \<and>
   map samples (family_named (collect xavier) ''jetson_temperatures'') =
     [[([''ao''], GaugeValue (PyInt 0)), ([''gpu''], GaugeValue (PyFloat (382 / 10))),
       ([''tdiode''], GaugeValue (PyInt 0)), ([''aux''], GaugeValue (PyInt 0)),
       ([''cpu''], GaugeValue (PyFloat 45)), ([''thermal''], GaugeValue (PyInt 0)),
       ([''tboard''], GaugeValue (PyInt 0))]]"
  using C4_temperature_defaults [OF xavier_ok] xavier_ok xavier_before_power xavier_temperature
  by auto

text \<open>
  C6. For every live session whose uptime has a seconds component from 0 up to, not
  including, 86400, the uptime block builds a family of exactly three records: days, the
  days component as it is; hours, the seconds divided by 3600 rounding down; minutes,
  the seconds divided by 60 rounding down, modulo 60. Every family of that name in the
  trace is this family, and the trace holds exactly this one when the board block
  completes. For 2 days and 10000 seconds the records are days=2, hours=2, minutes=46.
\<close>

theorem C6_uptime_records:
  assumes "ok j" "0 \<le> seconds (uptime j)" "seconds (uptime j) < 86400"
  shows "\<exists>g. system_uptime j = Inr g \<and>
           samples g =
             [([''days''], GaugeValue (PyInt (days (uptime j)))),
              ([''hours''], GaugeValue (PyInt (seconds (uptime j) div 3600))),
              ([''minutes''], GaugeValue (PyInt ((seconds (uptime j) div 60) mod 60)))] \<and>
           set (family_named (collect j) ''jetson_uptime'') \<subseteq> {g} \<and>
           (board_present j \<longrightarrow> family_named (collect j) ''jetson_uptime'' = [g]) \<and>
           (days (uptime j) = 2 \<and> seconds (uptime j) = 10000 \<longrightarrow>
              samples g =
                [([''days''], GaugeValue (PyInt 2)), ([''hours''], GaugeValue (PyInt 2)),
                 ([''minutes''], GaugeValue (PyInt 46))])"
proof -
  obtain g where g: "system_uptime j = Inr g"
    using system_uptime_eq [of j] by blast
  with system_uptime_eq [of j] have s: "samples g =
      [([''days''], GaugeValue (PyInt (days (uptime j)))),
       ([''hours''], GaugeValue (PyInt (seconds (uptime j) div 3600))),
       ([''minutes''], GaugeValue (PyInt ((seconds (uptime j) div 60) mod 60)))]"
    by auto
  have sub: "set (family_named (collect j) ''jetson_uptime'') \<subseteq> {g}"
    using g by (auto dest: named_system_uptime)
  have one: "family_named (collect j) ''jetson_uptime'' = [g]" if "board_present j"
    using assms(1) that g by (rule family_named_system_uptime)
  have ex: "samples g =
      [([''days''], GaugeValue (PyInt 2)), ([''hours''], GaugeValue (PyInt 2)),
       ([''minutes''], GaugeValue (PyInt 46))]"
    if "days (uptime j) = 2 \<and> seconds (uptime j) = 10000"
    unfolding s using that by simp
  from g s sub one ex show ?thesis by blast
qed

theorem C6_uptime_records_witness:
  "ok xavier \<and> 0 \<le> seconds (uptime xavier) \<and> seconds (uptime xavier) < 86400 \<and>
   board_present xavier \<and> days (uptime xavier) = 2 \<and> seconds (uptime xavier) = 10000 \<and>
   map samples (family_named (collect xavier) ''jetson_uptime'') =
     [[([''days''], GaugeValue (PyInt 2)), ([''hours''], GaugeValue (PyInt 2)),
       ([''minutes''], GaugeValue (PyInt 46))]]"
proof -
  have r: "0 \<le> seconds (uptime xavier)" "seconds (uptime xavier) < 86400"
    by (simp_all add: xavier_uptime)
  from C6_uptime_records [OF xavier_ok r] xavier_ok xavier_board_present xavier_uptime r
  show ?thesis by auto
qed

text \<open>
  C5. Take a live session with a per-core list. If the list has at least eight entries
  and each of the first eight has a current frequency, the per-core block builds a
  family of exactly eight records, cpu_1 to cpu_8 in the order of the core indices 0 to
  7, each with the current frequency of its core; every family of that name in the trace
  is this family, and the trace holds exactly this one when the board block completes.
  If the list has fewer than eight entries, the generator ends in an exception (the
  \<^verbatim>\<open>IndexError\<close> of the first missing index when the board block completes and the
  entries that exist have a frequency) and yields no per-core family, not a shorter one.
  The entries 100, 200, ..., 800 give exactly these eight values in this order; six
  entries give the exception.
\<close>

theorem C5_eight_cores:
  assumes "ok j" "cpu j ''cpu'' = Some cores"
  shows "(8 \<le> length cores \<and> (\<forall>i<8. core_cur (cores ! i) = Some (fs ! i)) \<longrightarrow>
          (\<exists>g. cpu_usage j = Inr g \<and>
             samples g =
               [([''cpu_1''], GaugeValue (fs ! 0)), ([''cpu_2''], GaugeValue (fs ! 1)),
                ([''cpu_3''], GaugeValue (fs ! 2)), ([''cpu_4''], GaugeValue (fs ! 3)),
                ([''cpu_5''], GaugeValue (fs ! 4)), ([''cpu_6''], GaugeValue (fs ! 5)),
                ([''cpu_7''], GaugeValue (fs ! 6)), ([''cpu_8''], GaugeValue (fs ! 7))] \<and>
             set (family_named (collect j) ''jetson_usage_cpu'') \<subseteq> {g} \<and>
             (board_present j \<longrightarrow> family_named (collect j) ''jetson_usage_cpu'' = [g]))) \<and>
         (length cores < 8 \<longrightarrow>
          (\<exists>e. raised (collect j) = Some e) \<and>
          family_named (collect j) ''jetson_usage_cpu'' = [] \<and>
          (board_present j \<and> (\<forall>i<length cores. core_cur (cores ! i) \<noteq> None) \<longrightarrow>
             raised (collect j) = Some IndexError))"
proof (intro conjI impI)
  assume a: "8 \<le> length cores \<and> (\<forall>i<8. core_cur (cores ! i) = Some (fs ! i))"
  then have eq: "cpu_usage j =
     Inr \<lparr>name = ''jetson_usage_cpu'', documentation = ''CPU % schedutil'', mtype = ''gauge'',
          labelnames = [''cpu''],
          samples =
            [([''cpu_1''], GaugeValue (fs ! 0)), ([''cpu_2''], GaugeValue (fs ! 1)),
             ([''cpu_3''], GaugeValue (fs ! 2)), ([''cpu_4''], GaugeValue (fs ! 3)),
             ([''cpu_5''], GaugeValue (fs ! 4)), ([''cpu_6''], GaugeValue (fs ! 5)),
             ([''cpu_7''], GaugeValue (fs ! 6)), ([''cpu_8''], GaugeValue (fs ! 7))]\<rparr>"
    using assms(2) by (blast intro: cpu_usage_eq)
  then obtain g where g: "cpu_usage j = Inr g" by blast
  with eq have s: "samples g =
      [([''cpu_1''], GaugeValue (fs ! 0)), ([''cpu_2''], GaugeValue (fs ! 1)),
       ([''cpu_3''], GaugeValue (fs ! 2)), ([''cpu_4''], GaugeValue (fs ! 3)),
       ([''cpu_5''], GaugeValue (fs ! 4)), ([''cpu_6''], GaugeValue (fs ! 5)),
       ([''cpu_7''], GaugeValue (fs ! 6)), ([''cpu_8''], GaugeValue (fs ! 7))]"
    by auto
  have sub: "set (family_named (collect j) ''jetson_usage_cpu'') \<subseteq> {g}"
    using g by (auto dest: named_cpu_usage)
  have one: "family_named (collect j) ''jetson_usage_cpu'' = [g]" if "board_present j"
    using assms(1) that g by (rule family_named_cpu_usage)
  from g s sub one show "\<exists>g. cpu_usage j = Inr g \<and>
             samples g =
               [([''cpu_1''], GaugeValue (fs ! 0)), ([''cpu_2''], GaugeValue (fs ! 1)),
                ([''cpu_3''], GaugeValue (fs ! 2)), ([''cpu_4''], GaugeValue (fs ! 3)),
                ([''cpu_5''], GaugeValue (fs ! 4)), ([''cpu_6''], GaugeValue (fs ! 5)),
                ([''cpu_7''], GaugeValue (fs ! 6)), ([''cpu_8''], GaugeValue (fs ! 7))] \<and>
             set (family_named (collect j) ''jetson_usage_cpu'') \<subseteq> {g} \<and>
             (board_present j \<longrightarrow> family_named (collect j) ''jetson_usage_cpu'' = [g])"
    by blast
next
  assume short: "length cores < 8"
  with assms(2) have f: "isl (cpu_usage j)"
    by (rule cpu_usage_short)
  have "cpu_usage \<in> set blocks"
    by (simp add: blocks_def)
  with assms(1) show "\<exists>e. raised (collect j) = Some e"
    using f by (rule collect_raises)
  from f have "g \<notin> set (family_named (collect j) ''jetson_usage_cpu'')" for g
    by (auto dest: named_cpu_usage)
  then show "family_named (collect j) ''jetson_usage_cpu'' = []"
    by (cases "family_named (collect j) ''jetson_usage_cpu''") auto
next
  assume short: "length cores < 8"
    and b: "board_present j \<and> (\<forall>i<length cores. core_cur (cores ! i) \<noteq> None)"
  then have "cpu_usage j = Inl IndexError"
    using assms(2) by (blast intro: cpu_usage_IndexError)
  with assms(1) b show "raised (collect j) = Some IndexError"
    by (blast intro: collect_cpu_IndexError)
qed

theorem C5_eight_cores_witness:
  "(ok xavier \<and> cpu xavier ''cpu'' = Some (map core [100, 200, 300, 400, 500, 600, 700, 800]) \<and>
    8 \<le> length (map core [100, 200, 300, 400, 500, 600, 700, 800]) \<and>
    map core_cur (map core [100, 200, 300, 400, 500, 600, 700, 800]) =
      map Some (map PyInt [100, 200, 300, 400, 500, 600, 700, 800]) \<and>
    board_present xavier \<and>
    map samples (family_named (collect xavier) ''jetson_usage_cpu'') =
      [[([''cpu_1''], GaugeValue (PyInt 100)), ([''cpu_2''], GaugeValue (PyInt 200)),
        ([''cpu_3''], GaugeValue (PyInt 300)), ([''cpu_4''], GaugeValue (PyInt 400)),
        ([''cpu_5''], GaugeValue (PyInt 500)), ([''cpu_6''], GaugeValue (PyInt 600)),
        ([''cpu_7''], GaugeValue (PyInt 700)), ([''cpu_8''], GaugeValue (PyInt 800))]]) \<and>
   (ok xavier_six_cores \<and>
    cpu xavier_six_cores ''cpu'' = Some (map core [100, 200, 300, 400, 500, 600]) \<and>
    length (map core [100, 200, 300, 400, 500, 600]) < 8 \<and>
    board_present xavier_six_cores \<and>
    list_all (\<lambda>c. core_cur c \<noteq> None) (map core [100, 200, 300, 400, 500, 600]) \<and>
    raised (collect xavier_six_cores) = Some IndexError \<and>
    family_named (collect xavier_six_cores) ''jetson_usage_cpu'' = [])"
proof -
  have l8: "8 \<le> length (map core [100, 200, 300, 400, 500, 600, 700, 800])"
    and l6: "length (map core [100, 200, 300, 400, 500, 600]) < 8"
    by simp_all
  from C5_eight_cores [OF xavier_ok xavier_cpu,
      of "map PyInt [100, 200, 300, 400, 500, 600, 700, 800]"]
    l8 xavier_core_cur xavier_board_present
  obtain g where "samples g =
      [([''cpu_1''], GaugeValue (PyInt 100)), ([''cpu_2''], GaugeValue (PyInt 200)),
       ([''cpu_3''], GaugeValue (PyInt 300)), ([''cpu_4''], GaugeValue (PyInt 400)),
       ([''cpu_5''], GaugeValue (PyInt 500)), ([''cpu_6''], GaugeValue (PyInt 600)),
       ([''cpu_7''], GaugeValue (PyInt 700)), ([''cpu_8''], GaugeValue (PyInt 800))]"
    "family_named (collect xavier) ''jetson_usage_cpu'' = [g]"
    by auto
  then have first: "map samples (family_named (collect xavier) ''jetson_usage_cpu'') =
      [[([''cpu_1''], GaugeValue (PyInt 100)), ([''cpu_2''], GaugeValue (PyInt 200)),
        ([''cpu_3''], GaugeValue (PyInt 300)), ([''cpu_4''], GaugeValue (PyInt 400)),
        ([''cpu_5''], GaugeValue (PyInt 500)), ([''cpu_6''], GaugeValue (PyInt 600)),
        ([''cpu_7''], GaugeValue (PyInt 700)), ([''cpu_8''], GaugeValue (PyInt 800))]]"
    by simp
  from C5_eight_cores [OF six_cores_facts(1,3)] l6 six_cores_facts(2,4)
  have second: "raised (collect xavier_six_cores) = Some IndexError"
    "family_named (collect xavier_six_cores) ''jetson_usage_cpu'' = []"
    by blast+
  have m8: "map core_cur (map core [100, 200, 300, 400, 500, 600, 700, 800]) =
      map Some (map PyInt [100, 200, 300, 400, 500, 600, 700, 800])"
    and m6: "list_all (\<lambda>c. core_cur c \<noteq> None) (map core [100, 200, 300, 400, 500, 600])"
    by (simp_all add: core_cur_def core_def)
  from first second xavier_ok xavier_cpu l8 l6 m8 m6 xavier_board_present six_cores_facts(1,2,3)
  show ?thesis by blast
qed

text \<open>
  C9 (as amended). Take a live session whose per-core list has more than eight entries.
  The trace is the trace of the same session with the list cut to its first eight
  entries: the entries from index 8 on are never read, never rendered and raise nothing.
  When the first eight entries have a current frequency the per-core family has exactly
  the eight records of the cores 0 to 7, and when every other field the blocks subscript
  is present too the generator raises nothing and yields all thirteen families.
\<close>

theorem C9_surplus_cores_ignored:
  assumes "ok j" "cpu j ''cpu'' = Some cores" "8 < length cores"
  shows "collect j = collect (j\<lparr>cpu := (cpu j)(''cpu'' \<mapsto> take 8 cores)\<rparr>) \<and>
         ((\<forall>i<8. core_cur (cores ! i) = Some (fs ! i)) \<longrightarrow>
          (\<exists>g. cpu_usage j = Inr g \<and>
             samples g =
               [([''cpu_1''], GaugeValue (fs ! 0)), ([''cpu_2''], GaugeValue (fs ! 1)),
                ([''cpu_3''], GaugeValue (fs ! 2)), ([''cpu_4''], GaugeValue (fs ! 3)),
                ([''cpu_5''], GaugeValue (fs ! 4)), ([''cpu_6''], GaugeValue (fs ! 5)),
                ([''cpu_7''], GaugeValue (fs ! 6)), ([''cpu_8''], GaugeValue (fs ! 7))] \<and>
             set (family_named (collect j) ''jetson_usage_cpu'') \<subseteq> {g} \<and>
             (board_present j \<longrightarrow> family_named (collect j) ''jetson_usage_cpu'' = [g]))) \<and>
         (all_fields_present j \<longrightarrow>
            raised (collect j) = None \<and> length (families (collect j)) = 13)"
proof (intro conjI impI)
  show "collect j = collect (j\<lparr>cpu := (cpu j)(''cpu'' \<mapsto> take 8 cores)\<rparr>)"
    using assms(2,3) by (rule collect_take_8)
next
  assume a: "\<forall>i<8. core_cur (cores ! i) = Some (fs ! i)"
  from assms(3) have "8 \<le> length cores" by simp
  with assms(2) have eq: "cpu_usage j =
     Inr \<lparr>name = ''jetson_usage_cpu'', documentation = ''CPU % schedutil'', mtype = ''gauge'',
          labelnames = [''cpu''],
          samples =
            [([''cpu_1''], GaugeValue (fs ! 0)), ([''cpu_2''], GaugeValue (fs ! 1)),
             ([''cpu_3''], GaugeValue (fs ! 2)), ([''cpu_4''], GaugeValue (fs ! 3)),
             ([''cpu_5''], GaugeValue (fs ! 4)), ([''cpu_6''], GaugeValue (fs ! 5)),
             ([''cpu_7''], GaugeValue (fs ! 6)), ([''cpu_8''], GaugeValue (fs ! 7))]\<rparr>"
    using a by (rule cpu_usage_eq)
  then obtain g where g: "cpu_usage j = Inr g" by blast
  with eq have s: "samples g =
      [([''cpu_1''], GaugeValue (fs ! 0)), ([''cpu_2''], GaugeValue (fs ! 1)),
       ([''cpu_3''], GaugeValue (fs ! 2)), ([''cpu_4''], GaugeValue (fs ! 3)),
       ([''cpu_5''], GaugeValue (fs ! 4)), ([''cpu_6''], GaugeValue (fs ! 5)),
       ([''cpu_7''], GaugeValue (fs ! 6)), ([''cpu_8''], GaugeValue (fs ! 7))]"
    by auto
  have sub: "set (family_named (collect j) ''jetson_usage_cpu'') \<subseteq> {g}"
    using g by (auto dest: named_cpu_usage)
  have one: "family_named (collect j) ''jetson_usage_cpu'' = [g]" if "board_present j"
    using assms(1) that g by (rule family_named_cpu_usage)
  from g s sub one show "\<exists>g. cpu_usage j = Inr g \<and>
             samples g =
               [([''cpu_1''], GaugeValue (fs ! 0)), ([''cpu_2''], GaugeValue (fs ! 1)),
                ([''cpu_3''], GaugeValue (fs ! 2)), ([''cpu_4''], GaugeValue (fs ! 3)),
                ([''cpu_5''], GaugeValue (fs ! 4)), ([''cpu_6''], GaugeValue (fs ! 5)),
                ([''cpu_7''], GaugeValue (fs ! 6)), ([''cpu_8''], GaugeValue (fs ! 7))] \<and>
             set (family_named (collect j) ''jetson_usage_cpu'') \<subseteq> {g} \<and>
             (board_present j \<longrightarrow> family_named (collect j) ''jetson_usage_cpu'' = [g])"
    by blast
next
  assume "all_fields_present j"
  with assms(1) have "collect j = map (\<lambda>b. Yield (projr (b j))) blocks"
    by (rule collect_all_ok)
  then show "raised (collect j) = None" "length (families (collect j)) = 13"
    by (simp_all add: length_blocks)
qed

theorem C9_surplus_cores_ignored_witness:
  "ok xavier_nine_cores \<and>
   cpu xavier_nine_cores ''cpu'' =
     Some (map core [100, 200, 300, 400, 500, 600, 700, 800, 900]) \<and>
   8 < length (map core [100, 200, 300, 400, 500, 600, 700, 800, 900]) \<and>
   map core_cur (map core [100, 200, 300, 400, 500, 600, 700, 800, 900]) =
     map Some (map PyInt [100, 200, 300, 400, 500, 600, 700, 800, 900]) \<and>
   board_present xavier_nine_cores \<and> all_fields_present xavier_nine_cores \<and>
   collect xavier_nine_cores =
     collect (xavier_nine_cores\<lparr>cpu := (cpu xavier_nine_cores)(''cpu'' \<mapsto>
        take 8 (map core [100, 200, 300, 400, 500, 600, 700, 800, 900]))\<rparr>) \<and>
   map samples (family_named (collect xavier_nine_cores) ''jetson_usage_cpu'') =
     [[([''cpu_1''], GaugeValue (PyInt 100)), ([''cpu_2''], GaugeValue (PyInt 200)),
       ([''cpu_3''], GaugeValue (PyInt 300)), ([''cpu_4''], GaugeValue (PyInt 400)),
       ([''cpu_5''], GaugeValue (PyInt 500)), ([''cpu_6''], GaugeValue (PyInt 600)),
       ([''cpu_7''], GaugeValue (PyInt 700)), ([''cpu_8''], GaugeValue (PyInt 800))]] \<and>
   raised (collect xavier_nine_cores) = None \<and>
   length (families (collect xavier_nine_cores)) = 13"
proof -
  have l9: "8 < length (map core [100, 200, 300, 400, 500, 600, 700, 800, 900])"
    by simp
  note c9 = C9_surplus_cores_ignored [OF nine_cores_facts(1,3) l9,
      of "map PyInt [100, 200, 300, 400, 500, 600, 700, 800, 900]"]
  from c9 nine_cores_facts(2,4)
  obtain g where "samples g =
      [([''cpu_1''], GaugeValue (PyInt 100)), ([''cpu_2''], GaugeValue (PyInt 200)),
       ([''cpu_3''], GaugeValue (PyInt 300)), ([''cpu_4''], GaugeValue (PyInt 400)),
       ([''cpu_5''], GaugeValue (PyInt 500)), ([''cpu_6''], GaugeValue (PyInt 600)),
       ([''cpu_7''], GaugeValue (PyInt 700)), ([''cpu_8''], GaugeValue (PyInt 800))]"
    "family_named (collect xavier_nine_cores) ''jetson_usage_cpu'' = [g]"
    by auto
  then have first: "map samples (family_named (collect xavier_nine_cores) ''jetson_usage_cpu'') =
      [[([''cpu_1''], GaugeValue (PyInt 100)), ([''cpu_2''], GaugeValue (PyInt 200)),
        ([''cpu_3''], GaugeValue (PyInt 300)), ([''cpu_4''], GaugeValue (PyInt 400)),
        ([''cpu_5''], GaugeValue (PyInt 500)), ([''cpu_6''], GaugeValue (PyInt 600)),
        ([''cpu_7''], GaugeValue (PyInt 700)), ([''cpu_8''], GaugeValue (PyInt 800))]]"
    by simp
  from c9 nine_cores_facts(5) have rest:
    "collect xavier_nine_cores =
     collect (xavier_nine_cores\<lparr>cpu := (cpu xavier_nine_cores)(''cpu'' \<mapsto>
        take 8 (map core [100, 200, 300, 400, 500, 600, 700, 800, 900]))\<rparr>)"
    "raised (collect xavier_nine_cores) = None"
    "length (families (collect xavier_nine_cores)) = 13"
    by blast+
  have m9: "map core_cur (map core [100, 200, 300, 400, 500, 600, 700, 800, 900]) =
      map Some (map PyInt [100, 200, 300, 400, 500, 600, 700, 800, 900])"
    by (simp add: core_cur_def core_def)
  from first rest nine_cores_facts(1,2,3,5) l9 m9 show ?thesis by blast
qed

text \<open>
  The claim as stated fails: a live session with nine per-core entries, from a board
  whose GPU is not called \<^verbatim>\<open>gv11b\<close>, yields four families and then raises, so the
  pass does not succeed for every session with more than eight entries.
\<close>

theorem C9_counterexample:
  "ok orin_nine_cores \<and>
   cpu orin_nine_cores ''cpu'' =
     Some (map core [100, 200, 300, 400, 500, 600, 700, 800, 900]) \<and>
   8 < length (map core [100, 200, 300, 400, 500, 600, 700, 800, 900]) \<and>
   raised (collect orin_nine_cores) = Some (KeyError ''gv11b'') \<and>
   length (families (collect orin_nine_cores)) = 4"
  using orin_nine_facts(1,4) by (simp add: collect_orin_nine)

text \<open>
  C7. For every live session the board-info family is emitted complete or not at all.
  When a board identity field is absent, the first block raises a \<^verbatim>\<open>KeyError\<close> before
  anything is yielded: the trace is that exception alone, with no board-info family in
  it. When all of them are present, the trace holds exactly one board-info family, and
  its single record carries all eleven entries (machine, distribution, release, jetpack,
  l4t, module, type, codename, soc, cuda_arch_bin, serial_number) with the values read
  from the board tables.
\<close>

theorem C7_board_identity_all_or_nothing:
  assumes "ok j"
  shows "(\<not> board_present j \<longrightarrow>
            (\<exists>k. collect j = [Raise (KeyError k)]) \<and>
            family_named (collect j) ''jetson_info_board'' = []) \<and>
         (board_present j \<longrightarrow>
            (\<exists>g d. family_named (collect j) ''jetson_info_board'' = [g] \<and>
               samples g = [([''info''], InfoValue d)] \<and>
               d = map (\<lambda>x. (fst x, projr (snd x))) (board_items j) \<and>
               map fst d =
                 [''machine'', ''distribution'', ''release'', ''jetpack'', ''l4t'', ''module'',
                  ''type'', ''codename'', ''soc'', ''cuda_arch_bin'', ''serial_number'']))"
proof (intro conjI impI)
  assume "\<not> board_present j"
  then have "isl (board_info j)"
    by (simp add: isl_board_info)
  then obtain k where "board_info j = Inl (KeyError k)"
    using board_info_KeyError by blast
  with assms have c: "collect j = [Raise (KeyError k)]"
    by (rule collect_board_fails)
  then show "\<exists>k. collect j = [Raise (KeyError k)]" by blast
  from c show "family_named (collect j) ''jetson_info_board'' = []"
    by (simp add: family_named_def)
next
  assume "board_present j"
  then have "\<not> isl (board_info j)"
    by (simp add: isl_board_info)
  then obtain g where g: "board_info j = Inr g"
    by (cases "board_info j") auto
  let ?d = "map (\<lambda>x. (fst x, projr (snd x))) (board_items j)"
  from assms g have 1: "family_named (collect j) ''jetson_info_board'' = [g]"
    by (rule family_named_board_info)
  from g have 2: "samples g = [([''info''], InfoValue ?d)]"
    by (rule board_info_samples)
  have 3: "map fst ?d =
      [''machine'', ''distribution'', ''release'', ''jetpack'', ''l4t'', ''module'',
       ''type'', ''codename'', ''soc'', ''cuda_arch_bin'', ''serial_number'']"
    using board_items_keys [of j] by (simp add: o_def)
  show "\<exists>g d. family_named (collect j) ''jetson_info_board'' = [g] \<and>
               samples g = [([''info''], InfoValue d)] \<and>
               d = map (\<lambda>x. (fst x, projr (snd x))) (board_items j) \<and>
               map fst d =
                 [''machine'', ''distribution'', ''release'', ''jetpack'', ''l4t'', ''module'',
                  ''type'', ''codename'', ''soc'', ''cuda_arch_bin'', ''serial_number'']"
    by (rule exI [of _ g], rule exI [of _ ?d]) (simp only: 1 2 3 simp_thms)
qed

theorem C7_board_identity_witness:
  "(ok xavier_partial_board \<and> \<not> board_present xavier_partial_board \<and>
    (\<exists>k. collect xavier_partial_board = [Raise (KeyError k)]) \<and>
    family_named (collect xavier_partial_board) ''jetson_info_board'' = []) \<and>
   (ok xavier \<and> board_present xavier \<and>
    map samples (family_named (collect xavier) ''jetson_info_board'') =
      [[([''info''], InfoValue
          [(''machine'', ''aarch64''), (''distribution'', ''Ubuntu 20.04''),
           (''release'', ''5.10.104-tegra''), (''jetpack'', ''5.1.1''), (''l4t'', ''35.3.1''),
           (''module'', ''AGX Xavier''), (''type'', ''Jetson AGX Xavier''),
           (''codename'', ''galen''), (''soc'', ''tegra194''), (''cuda_arch_bin'', ''7.2''),
           (''serial_number'', ''0423018012345'')])]])"
proof -
  from C7_board_identity_all_or_nothing [OF partial_board_facts(1)] partial_board_facts
  have first: "\<exists>k. collect xavier_partial_board = [Raise (KeyError k)]"
    "family_named (collect xavier_partial_board) ''jetson_info_board'' = []"
    by blast+
  from C7_board_identity_all_or_nothing [OF xavier_ok] xavier_board_present
  obtain g where "family_named (collect xavier) ''jetson_info_board'' = [g]"
    "samples g = [([''info''], InfoValue (map (\<lambda>x. (fst x, projr (snd x))) (board_items xavier)))]"
    by blast
  then have second: "map samples (family_named (collect xavier) ''jetson_info_board'') =
      [[([''info''], InfoValue
          [(''machine'', ''aarch64''), (''distribution'', ''Ubuntu 20.04''),
           (''release'', ''5.10.104-tegra''), (''jetpack'', ''5.1.1''), (''l4t'', ''35.3.1''),
           (''module'', ''AGX Xavier''), (''type'', ''Jetson AGX Xavier''),
           (''codename'', ''galen''), (''soc'', ''tegra194''), (''cuda_arch_bin'', ''7.2''),
           (''serial_number'', ''0423018012345'')])]]"
    by (simp add: xavier_board_items)
  from first second partial_board_facts xavier_ok xavier_board_present
  show ?thesis by blast
qed

text \<open>
  C8. Two passes over the same session give the same trace: the same families in the
  same order, with the same names, label values, records and values, and the same
  exception at the end if there is one. The second pass runs in the store the first has
  left, with the family objects of the first still in it; every block of the second
  allocates its own object and changes no other, so the trace of a pass does not depend
  on the store it starts in, and the objects of earlier passes stay as they were.
\<close>

theorem C8_two_passes_same_trace:
  "fst (collect_twice j s) = snd (collect_twice j s) \<and>
   fst (collect_at j s) = fst (collect_at j s') \<and>
   take (length s) (snd (collect_at j s)) = s"
proof -
  obtain gs where 1: "collect_at j s = (collect j, s @ gs)"
    using collect_at_refines by blast
  obtain gs' where 2: "collect_at j (s @ gs) = (collect j, (s @ gs) @ gs')"
    using collect_at_refines by blast
  from 1 2 have "fst (collect_twice j s) = snd (collect_twice j s)"
    by (simp add: collect_twice_def)
  moreover have "fst (collect_at j s) = fst (collect_at j s')"
    by (simp add: fst_collect_at)
  moreover from 1 have "take (length s) (snd (collect_at j s)) = s"
    by simp
  ultimately show ?thesis by blast
qed

theorem C8_two_passes_same_trace_witness:
  "fst (collect_twice xavier []) = snd (collect_twice xavier []) \<and>
   length (families (fst (collect_twice xavier []))) = 13 \<and>
   raised (fst (collect_twice xavier [])) = None"
proof -
  obtain gs where 1: "collect_at xavier [] = (collect xavier, [] @ gs)"
    using collect_at_refines by blast
  obtain gs' where 2: "collect_at xavier ([] @ gs) = (collect xavier, ([] @ gs) @ gs')"
    using collect_at_refines by blast
  from 1 2 have f: "fst (collect_twice xavier []) = collect xavier"
    by (simp add: collect_twice_def)
  have "collect xavier = map (\<lambda>b. Yield (projr (b xavier))) blocks"
    by (rule collect_all_ok [OF xavier_ok xavier_all_present])
  then have "length (families (collect xavier)) = 13" "raised (collect xavier) = None"
    by (simp_all add: length_blocks)
  with f C8_two_passes_same_trace [of xavier "[]"] show ?thesis by simp
qed

end
